theory Spec2Isabelle
  imports Complex_Main "HOL-Library.Multiset"
begin

section \<open>Tensors, faults and the tensor primitives the heads call\<close>

text \<open>
  The heads of \<^verbatim>\<open>modeling_roberta.py\<close> compute on real-valued tensors. A vector is a
  list, a matrix a list of rows; scalars are idealised as \<^typ>\<open>real\<close>, integer tensors
  (targets, page identifiers) as \<^typ>\<open>int\<close>.

  A computation of the source either raises or returns a tensor. The result type
  \<open>fault + 'a\<close> has one branch for each way of not returning a real number:
  \<^item> \<open>IndexOutOfBounds\<close>: \<^verbatim>\<open>gather\<close> (or the class lookup of the cross entropy) was
    given an index outside the indexed axis and raised;
  \<^item> \<open>InvalidShape\<close>: \<^verbatim>\<open>view\<close> or a broadcast between incompatible shapes raised;
  \<^item> \<open>AssertionFailed\<close>: an \<^verbatim>\<open>assert(False)\<close> of the source was reached;
  \<^item> \<open>MissingInput\<close>: an argument left at \<^verbatim>\<open>None\<close> was handed to the encoder or to an
    embedding table;
  \<^item> \<open>NotFinite\<close>: nothing raised, but the value is an infinity or a NaN (the logarithm
    of an empty sum, the mean of no elements, a division by zero).
\<close>

datatype fault = IndexOutOfBounds | InvalidShape | AssertionFailed | MissingInput | NotFinite

fun collect :: "(fault + 'a) list \<Rightarrow> fault + 'a list" where
  "collect [] = Inr []"
| "collect (r # rs) =
     (case r of
        Inl e \<Rightarrow> Inl e
      | Inr v \<Rightarrow> (case collect rs of Inl e \<Rightarrow> Inl e | Inr vs \<Rightarrow> Inr (v # vs)))"

definition bnd :: "fault + 'a \<Rightarrow> ('a \<Rightarrow> fault + 'b) \<Rightarrow> fault + 'b" where
  \<comment> \<open>sequencing: a fault of the first computation is the fault of the whole\<close>
  "bnd r f = (case r of Inl e \<Rightarrow> Inl e | Inr v \<Rightarrow> f v)"

definition long :: "bool \<Rightarrow> int" where
  \<comment> \<open>\<^verbatim>\<open>mask.long()\<close>\<close>
  "long b = (if b then 1 else 0)"

definition gather_row :: "real list \<Rightarrow> int list \<Rightarrow> fault + real list" where
  "gather_row row idx =
     (if list_all (\<lambda>k. 0 \<le> k \<and> k < int (length row)) idx
      then Inr (map (\<lambda>k. row ! nat k) idx)
      else Inl IndexOutOfBounds)"

definition gather :: "real list list \<Rightarrow> int list list \<Rightarrow> fault + real list list" where
  \<comment> \<open>\<^verbatim>\<open>input.gather(dim=-1, index)\<close> on matrices: the index may have fewer rows than the
      input, never more; the result has the shape of the index.\<close>
  "gather input index =
     (if length input < length index then Inl InvalidShape
      else collect (map2 gather_row input index))"

definition masked_fill :: "'a list list \<Rightarrow> bool list list \<Rightarrow> 'a \<Rightarrow> 'a list list" where
  \<comment> \<open>\<^verbatim>\<open>x[mask] = v\<close> for a mask of the shape of \<open>x\<close>\<close>
  "masked_fill x msk v = map2 (map2 (\<lambda>a m. if m then v else a)) x msk"

definition view :: "nat \<Rightarrow> 'a list list \<Rightarrow> fault + 'a list list" where
  \<comment> \<open>\<^verbatim>\<open>x.view(bsz, -1)\<close>: the elements in row-major order, cut into \<open>bsz\<close> rows\<close>
  "view bsz x =
     (let flat = concat x; n = length flat in
      if bsz = 0 then Inl InvalidShape
      else if n mod bsz = 0
        then Inr (map (\<lambda>i. take (n div bsz) (drop (i * (n div bsz)) flat)) [0..<bsz])
        else Inl InvalidShape)"

definition logsumexp_row :: "real list \<Rightarrow> fault + real" where
  \<comment> \<open>the logarithm of an empty sum is minus infinity\<close>
  "logsumexp_row xs = (if xs = [] then Inl NotFinite else Inr (ln (\<Sum>x\<leftarrow>xs. exp x)))"

definition logsumexp :: "real list list \<Rightarrow> fault + real list" where
  \<comment> \<open>\<^verbatim>\<open>torch.logsumexp(x, dim=-1, keepdim=False)\<close>\<close>
  "logsumexp x = collect (map logsumexp_row x)"

definition mean :: "real list \<Rightarrow> fault + real" where
  \<comment> \<open>\<^verbatim>\<open>x.mean()\<close>; of no elements it is NaN\<close>
  "mean xs = (if xs = [] then Inl NotFinite else Inr (sum_list xs / real (length xs)))"

subsection \<open>Rounding\<close>

text \<open>
  The losses are idealised over the reals. One step is kept with the rounding of the
  tensor's dtype, because a claim depends on it: the subtraction that shifts the score of
  an in-batch collision. The rounding is a parameter \<open>fl\<close> of that step; exact arithmetic is
  \<open>\<lambda>x. x\<close>, and \<open>float32\<close> is round-to-nearest-even on 24 significant bits, the default
  dtype of the library (exponents below \<open>-126\<close> are subnormal; the shifted scores are far
  from the overflow threshold, which is not modelled).
\<close>

definition round_half_even :: "real \<Rightarrow> int" where
  "round_half_even x =
     (let f = \<lfloor>x\<rfloor>; r = x - of_int f
      in if r < 1 / 2 then f else if 1 / 2 < r then f + 1 else if even f then f else f + 1)"

definition float32 :: "real \<Rightarrow> real" where
  "float32 x =
     (if x = 0 then 0
      else let e = max \<lfloor>log 2 \<bar>x\<bar>\<rfloor> (- 126);
               u = 2 powr of_int (e - 23)
           in of_int (round_half_even (x / u)) * u)"

section \<open>The marginal span loss\<close>

text \<open>
  \<^verbatim>\<open>RobertaForTriviaQuestionAnswering.or_softmax_cross_entropy_loss_one_doc\<close>, for
  \<open>logits\<close> a matrix with one row per example and \<open>target\<close> a matrix of candidate positions.
  Each line of the source is one binding below, in the source's order, so that the first
  operation that raises decides the fault.
\<close>

definition or_softmax_example_losses ::
  "real list list \<Rightarrow> int list list \<Rightarrow> int \<Rightarrow> fault + real list" where
  \<comment> \<open>the body up to the local \<^verbatim>\<open>loss = -(log_score - log_norm)\<close>: one loss per example\<close>
  "or_softmax_example_losses logits target ignore_index =
     (let bsz = length logits;
          target_mask = map (map (\<lambda>t. t = ignore_index)) target;
          masked_target = map2 (map2 (\<lambda>t m. t * (1 - long m))) target target_mask
      in bnd (gather logits masked_target) (\<lambda>gathered_logits.
         let gathered_logits = masked_fill gathered_logits target_mask (- 10000)
         in bnd (view bsz gathered_logits) (\<lambda>gathered_logits.
            bnd (view bsz logits) (\<lambda>logits.
            bnd (logsumexp gathered_logits) (\<lambda>log_score.
            bnd (logsumexp logits) (\<lambda>log_norm.
            Inr (map2 (\<lambda>s n. - (s - n)) log_score log_norm)))))))"

definition or_softmax_cross_entropy_loss_one_doc ::
  "real list list \<Rightarrow> int list list \<Rightarrow> int \<Rightarrow> fault + real" where
  \<comment> \<open>\<^verbatim>\<open>return loss.mean()\<close>\<close>
  "or_softmax_cross_entropy_loss_one_doc logits target ignore_index =
     bnd (or_softmax_example_losses logits target ignore_index) mean"

subsection \<open>The loss as the specification words it\<close>

text \<open>
  Per example: the logits of the row are gathered at each target index, an ignored slot
  first replaced by the placeholder index 0; the gathered values at ignored slots are
  then overwritten with the sentinel; the loss of the row is the log-sum-exp of the row
  minus the log-sum-exp of the gathered values, and the batch loss is the mean of the rows.
\<close>

definition spec_logsumexp :: "real list \<Rightarrow> real" where
  "spec_logsumexp xs = ln (\<Sum>x\<leftarrow>xs. exp x)"

definition spec_g_row :: "int \<Rightarrow> real list \<Rightarrow> int list \<Rightarrow> real list" where
  "spec_g_row ignore_index logits_row target_row =
     (let placeholder = map (\<lambda>t. if t = ignore_index then 0 else t) target_row;
          gathered = map (\<lambda>k. logits_row ! nat k) placeholder
      in map2 (\<lambda>t g. if t = ignore_index then - 10000 else g) target_row gathered)"

definition spec_row_loss :: "int \<Rightarrow> real list \<Rightarrow> int list \<Rightarrow> real" where
  "spec_row_loss ignore_index logits_row target_row =
     spec_logsumexp logits_row - spec_logsumexp (spec_g_row ignore_index logits_row target_row)"

definition spec_marginal_span_loss :: "int \<Rightarrow> real list list \<Rightarrow> int list list \<Rightarrow> real" where
  "spec_marginal_span_loss ignore_index logits target =
     (\<Sum>(row, trow)\<leftarrow>zip logits target. spec_row_loss ignore_index row trow)
       / real (length logits)"

section \<open>Broadcasting, gradients and the scoring functions\<close>

text \<open>
  Two tensors of one rank combine elementwise when, axis by axis, their sizes agree or one
  of them is 1; otherwise the operation raises. \<open>bcast\<close> is one axis of that rule;
  \<open>ew1\<close>, \<open>ew2\<close> and \<open>ew3\<close> are the elementwise operations on vectors, matrices and
  rank-3 tensors.
\<close>

definition bcast :: "('a \<Rightarrow> 'b \<Rightarrow> fault + 'c) \<Rightarrow> 'a list \<Rightarrow> 'b list \<Rightarrow> fault + 'c list" where
  "bcast f xs ys =
     (if length xs = length ys then collect (map2 f xs ys)
      else if length xs = 1 then collect (map (f (hd xs)) ys)
      else if length ys = 1 then collect (map (\<lambda>x. f x (hd ys)) xs)
      else Inl InvalidShape)"

definition ew1 :: "('a \<Rightarrow> 'b \<Rightarrow> 'c) \<Rightarrow> 'a list \<Rightarrow> 'b list \<Rightarrow> fault + 'c list" where
  "ew1 f = bcast (\<lambda>a b. Inr (f a b))"

definition ew2 ::
  "('a \<Rightarrow> 'b \<Rightarrow> 'c) \<Rightarrow> 'a list list \<Rightarrow> 'b list list \<Rightarrow> fault + 'c list list" where
  "ew2 f = bcast (ew1 f)"

definition ew3 ::
  "('a \<Rightarrow> 'b \<Rightarrow> 'c) \<Rightarrow> 'a list list list \<Rightarrow> 'b list list list \<Rightarrow> fault + 'c list list list" where
  "ew3 f = bcast (ew2 f)"

definition unsqueeze1 :: "'a list \<Rightarrow> 'a list list" where
  \<comment> \<open>a new axis of size 1 after the first one: \<^verbatim>\<open>x.unsqueeze(1)\<close> of a matrix (a list of
      rows), \<^verbatim>\<open>x.unsqueeze(-1)\<close> of a vector; \<^verbatim>\<open>x.unsqueeze(0)\<close> is \<open>[x]\<close>\<close>
  "unsqueeze1 x = map (\<lambda>v. [v]) x"

definition slice :: "nat \<Rightarrow> nat \<Rightarrow> 'a list \<Rightarrow> 'a list" where
  \<comment> \<open>\<^verbatim>\<open>x[i:j]\<close> for \<open>0 \<le> i\<close>, \<open>0 \<le> j\<close>: clamped to the length, empty when \<open>j \<le> i\<close>\<close>
  "slice i j xs = take (j - i) (drop i xs)"

text \<open>
  A tensor carries one bit of the autograd graph: whether a gradient flows back through it.
  \<^verbatim>\<open>detach()\<close> returns the same values cut off from the graph; an operation's result needs
  a gradient when one of its operands does.
\<close>

record 'a tracked =
  data :: 'a
  requires_grad :: bool

definition detach :: "'a tracked \<Rightarrow> 'a tracked" where
  "detach x = \<lparr>data = data x, requires_grad = False\<rparr>"

definition op1 :: "('a \<Rightarrow> 'b) \<Rightarrow> 'a tracked \<Rightarrow> 'b tracked" where
  "op1 f x = \<lparr>data = f (data x), requires_grad = requires_grad x\<rparr>"

definition torch_norm :: "nat \<Rightarrow> real list \<Rightarrow> real" where
  \<comment> \<open>\<^verbatim>\<open>torch.norm(x, p=p, dim=-1)\<close> of one row; for \<open>p = 0\<close> the number of non-zero entries\<close>
  "torch_norm p v =
     (if p = 0 then real (length (filter (\<lambda>x. x \<noteq> 0) v))
      else root p (\<Sum>x\<leftarrow>v. \<bar>x\<bar> ^ p))"

definition sigmoid :: "real \<Rightarrow> real" where
  "sigmoid x = 1 / (1 + exp (- x))"

definition logsigmoid :: "real \<Rightarrow> real" where
  \<comment> \<open>\<^verbatim>\<open>F.logsigmoid\<close>\<close>
  "logsigmoid x = ln (sigmoid x)"

definition matmul_transposed :: "real list list \<Rightarrow> real list list \<Rightarrow> real list list" where
  \<comment> \<open>\<^verbatim>\<open>torch.matmul(a, torch.transpose(b, 0, 1))\<close> for \<open>a\<close> and \<open>b\<close> rows of one tensor:
      entry \<open>(i, j)\<close> is the dot product of row \<open>i\<close> of \<open>a\<close> and row \<open>j\<close> of \<open>b\<close>\<close>
  "matmul_transposed a b = map (\<lambda>q. map (\<lambda>n. \<Sum>(x, y)\<leftarrow>zip q n. x * y) b) a"

definition view3 :: "nat \<Rightarrow> nat \<Rightarrow> 'a list list \<Rightarrow> fault + 'a list list list" where
  \<comment> \<open>\<^verbatim>\<open>x.view(b, k, -1)\<close>\<close>
  "view3 b k x =
     (let flat = concat x; n = length flat; w = n div (b * k) in
      if b * k = 0 then Inl InvalidShape
      else if n mod (b * k) = 0
        then Inr (map (\<lambda>i. map (\<lambda>j. take w (drop ((i * k + j) * w) flat)) [0..<k]) [0..<b])
        else Inl InvalidShape)"

definition cat_last :: "'a list list \<Rightarrow> 'a list list \<Rightarrow> fault + 'a list list" where
  \<comment> \<open>\<^verbatim>\<open>torch.cat([a, b], dim=-1)\<close>: the other axis must agree exactly\<close>
  "cat_last a b = (if length a = length b then Inr (map2 (@) a b) else Inl InvalidShape)"

definition cross_entropy_row :: "real list \<Rightarrow> nat \<Rightarrow> fault + real" where
  \<comment> \<open>minus the log-softmax of the row at the label\<close>
  "cross_entropy_row row label =
     (if label < length row then Inr (ln (\<Sum>x\<leftarrow>row. exp x) - row ! label)
      else Inl IndexOutOfBounds)"

definition CrossEntropyLoss :: "real list list \<Rightarrow> nat list \<Rightarrow> fault + real" where
  \<comment> \<open>\<^verbatim>\<open>CrossEntropyLoss()(scores, labels)\<close>, reduced by the mean over the batch\<close>
  "CrossEntropyLoss scores labels =
     (if length scores = length labels
      then bnd (collect (map2 cross_entropy_row scores labels)) mean
      else Inl InvalidShape)"

section \<open>The contrastive heads\<close>

subsection \<open>Batch layout and the listwise loss\<close>

text \<open>
  \<^verbatim>\<open>RobertaForMerge.forward\<close> and \<^verbatim>\<open>RobertaForFix.forward\<close> cut the rows of \<open>entity_rep\<close>
  (one row per input sequence) into queries, positives and negatives:
  \<^verbatim>\<open>bsz = input_ids.shape[0] // (self.neg_K+2)\<close>, \<^verbatim>\<open>entity_rep[:bsz]\<close>,
  \<^verbatim>\<open>entity_rep[bsz:2*bsz]\<close>, \<^verbatim>\<open>entity_rep[2*bsz:]\<close>. Nothing in these lines raises.
\<close>

definition batch_layout :: "nat \<Rightarrow> 'a list \<Rightarrow> nat \<times> 'a list \<times> 'a list \<times> 'a list" where
  "batch_layout neg_K entity_rep =
     (let bsz = length entity_rep div (neg_K + 2);
          query_rep = take bsz entity_rep;
          pos_rep = slice bsz (2 * bsz) entity_rep;
          neg_rep = drop (2 * bsz) entity_rep
      in (bsz, query_rep, pos_rep, neg_rep))"

definition listwise_loss :: "nat \<Rightarrow> real list \<Rightarrow> real list list \<Rightarrow> fault + real" where
  \<comment> \<open>\<^verbatim>\<open>scores = torch.cat([pos_scores.unsqueeze(-1), neg_scores], dim=-1)\<close>,
      \<^verbatim>\<open>labels = torch.zeros(bsz)\<close>, \<^verbatim>\<open>CrossEntropyLoss()(scores, labels)\<close>\<close>
  "listwise_loss bsz pos_scores neg_scores =
     bnd (cat_last (unsqueeze1 pos_scores) neg_scores) (\<lambda>scores.
       let labels = replicate bsz 0
       in CrossEntropyLoss scores labels)"

definition in_batch_neg_scores ::
  "(real \<Rightarrow> real) \<Rightarrow> real list list \<Rightarrow> real list list \<Rightarrow> int list \<Rightarrow> int list list
   \<Rightarrow> fault + real list list" where
  \<comment> \<open>the branch \<^verbatim>\<open># in-batch negative\<close>; \<open>fl\<close> rounds the difference
      \<^verbatim>\<open>neg_scores - 10000.0*loss_mask\<close> to the dtype of the scores\<close>
  "in_batch_neg_scores fl query_rep neg_rep cur_page_ids neg_page_ids =
     (let cur_page_ids = unsqueeze1 cur_page_ids;
          neg_page_ids = [concat neg_page_ids]
      in bnd (ew2 (\<lambda>c n. if c = n then 1 else 0) cur_page_ids neg_page_ids) (\<lambda>loss_mask.
         let neg_scores = matmul_transposed query_rep neg_rep
         in ew2 (\<lambda>s m. fl (s - m)) neg_scores (map (map ((*) 10000)) loss_mask)))"

definition explicit_neg_scores ::
  "nat \<Rightarrow> nat \<Rightarrow> real list list \<Rightarrow> real list list \<Rightarrow> fault + real list list" where
  \<comment> \<open>the branch \<^verbatim>\<open># normal negative\<close>\<close>
  "explicit_neg_scores bsz neg_K query_rep neg_rep =
     bnd (view3 bsz neg_K neg_rep) (\<lambda>neg_rep.
     bnd (ew3 (*) (unsqueeze1 query_rep) neg_rep) (\<lambda>neg_scores.
     let neg_scores = map (map sum_list) neg_scores
     in view bsz neg_scores))"

record contrastive_head =
  neg_K :: nat
  in_batch :: bool

definition RobertaForFix_init :: "nat \<Rightarrow> contrastive_head" where
  \<comment> \<open>\<^verbatim>\<open>self.neg_K = config.neg_K\<close>, \<^verbatim>\<open>self.in_batch = True\<close>\<close>
  "RobertaForFix_init config_neg_K = \<lparr>neg_K = config_neg_K, in_batch = True\<rparr>"

definition RobertaForFix_forward ::
  "(real \<Rightarrow> real) \<Rightarrow> contrastive_head \<Rightarrow> real list list \<Rightarrow> int list \<Rightarrow> int list list
   \<Rightarrow> fault + real" where
  \<comment> \<open>\<open>entity_rep\<close> is \<^verbatim>\<open>self.lm_head(sequence_output[:, -1])\<close>, one row per input sequence;
      \<open>fl\<close> is the rounding of the dtype of the scores\<close>
  "RobertaForFix_forward fl self entity_rep cur_page_ids neg_page_ids =
     (case batch_layout (neg_K self) entity_rep of (bsz, query_rep, pos_rep, neg_rep) \<Rightarrow>
        bnd (ew2 (*) query_rep pos_rep) (\<lambda>prod.
        let pos_scores = map sum_list prod
        in bnd (if in_batch self
                then in_batch_neg_scores fl query_rep neg_rep cur_page_ids neg_page_ids
                else explicit_neg_scores bsz (neg_K self) query_rep neg_rep) (\<lambda>neg_scores.
           listwise_loss bsz pos_scores neg_scores)))"

definition RobertaForMerge_forward ::
  "nat \<Rightarrow> real list list \<Rightarrow> real list \<Rightarrow> fault + real" where
  \<comment> \<open>the training path, after the \<^verbatim>\<open>lm_labels\<close> and \<^verbatim>\<open>is_eval\<close> returns; \<open>entity_rep\<close> is
      \<^verbatim>\<open>self.ent_head(sequence_output[:, -1])\<close> and \<open>tmp\<close> is
      \<^verbatim>\<open>self.lm_head.decoder(sequence_output[0,0])\<close>\<close>
  "RobertaForMerge_forward self_neg_K entity_rep tmp =
     (case batch_layout self_neg_K entity_rep of (bsz, query_rep, pos_rep, neg_rep) \<Rightarrow>
        bnd (view3 bsz self_neg_K neg_rep) (\<lambda>neg_rep.
        bnd (ew2 (*) query_rep pos_rep) (\<lambda>prod.
        let pos_scores = map sum_list prod
        in bnd (ew3 (*) (unsqueeze1 query_rep) neg_rep) (\<lambda>neg_scores.
           let neg_scores = map (map sum_list) neg_scores
           in bnd (view bsz neg_scores) (\<lambda>neg_scores.
              bnd (listwise_loss bsz pos_scores neg_scores) (\<lambda>loss.
              bnd (mean tmp) (\<lambda>m. Inr (loss + 0 * m))))))))"

subsection \<open>\<^verbatim>\<open>RobertaForTogether\<close>\<close>

record together_head = contrastive_head +
  is_detach :: bool
  self_gamma :: real
  self_p :: "nat option"

definition RobertaForTogether_init :: "nat \<Rightarrow> bool \<Rightarrow> together_head" where
  \<comment> \<open>\<^verbatim>\<open>self.in_batch = True\<close>, \<^verbatim>\<open>self.is_detach = config.detach\<close>, \<^verbatim>\<open>self._gamma = 5\<close>,
      \<^verbatim>\<open>self.p = 1\<close>\<close>
  "RobertaForTogether_init config_neg_K config_detach =
     \<lparr>neg_K = config_neg_K, in_batch = True,
      is_detach = config_detach, self_gamma = 5, self_p = Some 1\<rparr>"

definition together_reps ::
  "together_head \<Rightarrow> nat \<Rightarrow> real list list tracked
   \<Rightarrow> real list list tracked \<times> real list list tracked \<times> real list list tracked" where
  \<comment> \<open>\<^verbatim>\<open>query_rep\<close>, \<^verbatim>\<open>pos_rep\<close> and \<^verbatim>\<open>neg_rep\<close> as the forward pass binds them\<close>
  "together_reps self bsz entity_rep =
     (let query_rep = op1 (take bsz) entity_rep;
          pos_rep = detach (op1 (slice bsz (2 * bsz)) entity_rep);
          neg_rep = detach (op1 (drop (2 * bsz)) entity_rep);
          pos_rep = (if is_detach self then detach pos_rep else pos_rep);
          neg_rep = (if is_detach self then detach neg_rep else neg_rep)
      in (query_rep, pos_rep, neg_rep))"

definition margin_in_batch_negative_loss ::
  "real \<Rightarrow> nat \<Rightarrow> nat \<Rightarrow> nat \<Rightarrow> real list list \<Rightarrow> real list list \<Rightarrow> int list \<Rightarrow> int list list
   \<Rightarrow> fault + real" where
  \<comment> \<open>\<open>negative_sample_loss\<close> of the branch \<^verbatim>\<open>self.p\<close> not \<^verbatim>\<open>None\<close>, \<^verbatim>\<open>self.in_batch\<close>\<close>
  "margin_in_batch_negative_loss gamma p K bsz query_rep neg_rep cur_page_ids neg_page_ids =
     (let cur_page_ids = unsqueeze1 cur_page_ids;
          neg_page_ids = [concat neg_page_ids]
      in bnd (ew2 (\<lambda>c n. if c \<noteq> n then 1 else 0) cur_page_ids neg_page_ids) (\<lambda>loss_mask.
         bnd (view (bsz * K) neg_rep) (\<lambda>neg_rep.
         let neg_rep = [neg_rep]
         in bnd (ew3 (-) (unsqueeze1 query_rep) neg_rep) (\<lambda>neg_scores.
            let negative_score = map (map (\<lambda>v. gamma - torch_norm p v)) neg_scores;
                valid = sum_list (concat loss_mask)
            in bnd (ew2 (*) (map (map (\<lambda>s. logsigmoid (- s))) negative_score) loss_mask)
                 (\<lambda>negative_score.
                    if valid = 0
                    then (if concat negative_score = [] then Inr 0 else Inl NotFinite)
                    else Inr (- sum_list (concat (map (map (\<lambda>x. x / valid)) negative_score))))))))"

definition margin_explicit_negative_loss ::
  "real \<Rightarrow> nat \<Rightarrow> nat \<Rightarrow> nat \<Rightarrow> real list list \<Rightarrow> real list list \<Rightarrow> fault + real" where
  \<comment> \<open>\<open>negative_sample_loss\<close> of the branch \<^verbatim>\<open>self.p\<close> not \<^verbatim>\<open>None\<close>, not \<^verbatim>\<open>self.in_batch\<close>\<close>
  "margin_explicit_negative_loss gamma p K bsz query_rep neg_rep =
     bnd (view3 bsz K neg_rep) (\<lambda>neg_rep.
     bnd (ew3 (-) (unsqueeze1 query_rep) neg_rep) (\<lambda>neg_scores.
     let negative_score = map (map (\<lambda>v. gamma - torch_norm p v)) neg_scores;
         negative_score = map (map (\<lambda>s. logsigmoid (- s))) negative_score
     in bnd (mean (concat negative_score)) (\<lambda>m. Inr (- m))))"

definition together_ent_loss ::
  "(real \<Rightarrow> real) \<Rightarrow> together_head \<Rightarrow> nat \<Rightarrow> real list list \<Rightarrow> real list list \<Rightarrow> real list list
   \<Rightarrow> int list \<Rightarrow> int list list \<Rightarrow> fault + real" where
  \<comment> \<open>\<open>ent_loss\<close>, from \<^verbatim>\<open>if self.p is None:\<close> on\<close>
  "together_ent_loss fl self bsz query_rep pos_rep neg_rep cur_page_ids neg_page_ids =
     (case self_p self of
        None \<Rightarrow>
          bnd (ew2 (*) query_rep pos_rep) (\<lambda>prod.
          let pos_scores = map sum_list prod
          in bnd (if in_batch self
                  then in_batch_neg_scores fl query_rep neg_rep cur_page_ids neg_page_ids
                  else explicit_neg_scores bsz (neg_K self) query_rep neg_rep) (\<lambda>neg_scores.
             listwise_loss bsz pos_scores neg_scores))
      | Some p \<Rightarrow>
          bnd (if in_batch self
               then margin_in_batch_negative_loss (self_gamma self) p (neg_K self) bsz
                      query_rep neg_rep cur_page_ids neg_page_ids
               else margin_explicit_negative_loss (self_gamma self) p (neg_K self) bsz
                      query_rep neg_rep) (\<lambda>negative_sample_loss.
          bnd (ew2 (-) query_rep pos_rep) (\<lambda>pos_scores.
          let positive_score = map (\<lambda>v. self_gamma self - torch_norm p v) pos_scores;
              positive_score = map logsigmoid positive_score
          in bnd (mean positive_score) (\<lambda>m.
             let positive_sample_loss = - m
             in Inr ((positive_sample_loss + negative_sample_loss) / 2)))))"

datatype together_output = Eval "real list list" | Losses real real real

definition RobertaForTogether_forward ::
  "(real \<Rightarrow> real) \<Rightarrow> together_head \<Rightarrow> nat \<Rightarrow> real list list tracked \<Rightarrow> bool
   \<Rightarrow> int list \<Rightarrow> int list list \<Rightarrow> real \<Rightarrow> fault + together_output" where
  \<comment> \<open>\<open>bsz\<close> is \<^verbatim>\<open>lm_labels.shape[0]\<close>, \<open>entity_rep\<close> is
      \<^verbatim>\<open>self.ent_head(sequence_output[bsz:, -1])\<close>, \<open>masked_lm_loss\<close> the loss of the
      language-model head on the first \<open>bsz\<close> sequences\<close>
  "RobertaForTogether_forward fl self bsz entity_rep is_eval cur_page_ids neg_page_ids
       masked_lm_loss =
     (if is_eval then Inr (Eval (data entity_rep))
      else case together_reps self bsz entity_rep of (query_rep, pos_rep, neg_rep) \<Rightarrow>
        bnd (together_ent_loss fl self bsz (data query_rep) (data pos_rep) (data neg_rep)
               cur_page_ids neg_page_ids) (\<lambda>ent_loss.
        let loss = ent_loss + masked_lm_loss
        in Inr (Losses loss ent_loss masked_lm_loss)))"

subsection \<open>\<^verbatim>\<open>RobertaForTransE\<close>\<close>

text \<open>
  The claim about this head is about the gradient of its loss, so its tensors carry
  derivatives: an entry is a pair of a value and the derivative of that value along one
  direction of the parameters (a dual number). Each operation computes the derivative of
  its result by the rule autograd applies to it, and \<^verbatim>\<open>detach()\<close> keeps the values and
  sets the derivatives to zero. The derivative of the loss is then the gradient that
  \<^verbatim>\<open>loss.backward()\<close> accumulates, applied to that direction.
\<close>

type_synonym dual = "real \<times> real"

definition dual_const :: "real \<Rightarrow> dual" where
  "dual_const c = (c, 0)"

definition dual_add :: "dual \<Rightarrow> dual \<Rightarrow> dual" where
  "dual_add x y = (fst x + fst y, snd x + snd y)"

definition dual_sub :: "dual \<Rightarrow> dual \<Rightarrow> dual" where
  "dual_sub x y = (fst x - fst y, snd x - snd y)"

definition dual_neg :: "dual \<Rightarrow> dual" where
  "dual_neg x = (- fst x, - snd x)"

definition dual_mul :: "dual \<Rightarrow> dual \<Rightarrow> dual" where
  "dual_mul x y = (fst x * fst y, snd x * fst y + fst x * snd y)"

definition dual_div :: "dual \<Rightarrow> dual \<Rightarrow> dual" where
  "dual_div x y = (fst x / fst y, (snd x * fst y - fst x * snd y) / (fst y)\<^sup>2)"

definition dual_abs :: "dual \<Rightarrow> dual" where
  \<comment> \<open>the derivative of the absolute value at 0 is taken to be 0, as \<^verbatim>\<open>sign\<close> gives it\<close>
  "dual_abs x = (\<bar>fst x\<bar>, sgn (fst x) * snd x)"

definition dual_exp :: "dual \<Rightarrow> dual" where
  "dual_exp x = (exp (fst x), exp (fst x) * snd x)"

definition dual_logsigmoid :: "dual \<Rightarrow> dual" where
  \<comment> \<open>\<^verbatim>\<open>F.logsigmoid\<close>: the derivative of \<open>ln (sigmoid x)\<close> is \<open>sigmoid (- x)\<close>\<close>
  "dual_logsigmoid x = (logsigmoid (fst x), sigmoid (- fst x) * snd x)"

definition dual_sum :: "dual list \<Rightarrow> dual" where
  "dual_sum xs = (\<Sum>x\<leftarrow>xs. fst x, \<Sum>x\<leftarrow>xs. snd x)"

definition dual_mean :: "dual list \<Rightarrow> fault + dual" where
  \<comment> \<open>\<^verbatim>\<open>x.mean()\<close>\<close>
  "dual_mean xs =
     (if xs = [] then Inl NotFinite
      else Inr (dual_div (dual_sum xs) (dual_const (real (length xs)))))"

definition dual_norm1 :: "dual list \<Rightarrow> dual" where
  \<comment> \<open>\<^verbatim>\<open>torch.norm(x, p=1, dim=-1)\<close> of one row\<close>
  "dual_norm1 v = dual_sum (map dual_abs v)"

definition dual_softmax_row :: "dual list \<Rightarrow> dual list" where
  "dual_softmax_row xs =
     (let e = map dual_exp xs; s = dual_sum e in map (\<lambda>x. dual_div x s) e)"

definition dual_softmax :: "dual list list \<Rightarrow> dual list list" where
  \<comment> \<open>\<^verbatim>\<open>F.softmax(x, dim = 1)\<close> of a matrix\<close>
  "dual_softmax x = map dual_softmax_row x"

definition dual_detach :: "dual \<Rightarrow> dual" where
  "dual_detach x = (fst x, 0)"

definition detach_tensor :: "dual list list \<Rightarrow> dual list list" where
  \<comment> \<open>\<^verbatim>\<open>x.detach()\<close> of a matrix\<close>
  "detach_tensor x = map (map dual_detach) x"

text \<open>
  The embedding tables and the encoder are collaborators: the forward pass is modelled on
  what they return. \<open>h\<close> and \<open>t\<close> are \<^verbatim>\<open>self.ent_embeddings(e1_idx)\<close> and
  \<^verbatim>\<open>self.ent_embeddings(e2_idx)\<close>; \<open>relation_idx\<close> is \<open>None\<close> or the rows
  \<^verbatim>\<open>self.rel_embeddings(relation_idx)\<close>; \<open>input_ids\<close> is \<open>None\<close> or what
  \<^verbatim>\<open>self.rel_head(self.roberta(input_ids, ...)[0])\<close> returns for them; \<open>neg_e1_idxs\<close> and
  \<open>neg_e2_idxs\<close> are \<open>None\<close> or the looked-up negative heads and tails, one list of negatives
  per example.
\<close>

definition bert_ceof :: real where
  "bert_ceof = 0.05"

definition transe_differences ::
  "dual list list \<Rightarrow> dual list list \<Rightarrow> dual list list option \<Rightarrow> dual list list option
   \<Rightarrow> dual list list list option \<Rightarrow> dual list list list option
   \<Rightarrow> fault + dual list list \<times> dual list list list" where
  \<comment> \<open>\<open>p_score\<close> and \<open>n_score\<close>, down to the line that takes their norms\<close>
  "transe_differences h t relation_idx input_ids neg_e1_idxs neg_e2_idxs =
     (case relation_idx of
        Some r \<Rightarrow>
          bnd (ew2 dual_add h r) (\<lambda>hr.
          bnd (ew2 dual_sub hr t) (\<lambda>p_score.
            case neg_e1_idxs of
              Some neg_h \<Rightarrow>
                bnd (ew2 dual_sub r t) (\<lambda>rt.
                bnd (ew3 dual_add neg_h (unsqueeze1 rt)) (\<lambda>n_score.
                Inr (p_score, n_score)))
            | None \<Rightarrow>
                (case neg_e2_idxs of
                   Some neg_t \<Rightarrow>
                     bnd (ew3 dual_sub (unsqueeze1 hr) neg_t) (\<lambda>n_score.
                     Inr (p_score, n_score))
                 | None \<Rightarrow> Inl AssertionFailed)))
      | None \<Rightarrow>
          (case input_ids of
             None \<Rightarrow> Inl MissingInput
           | Some outputs \<Rightarrow>
               (let r = map (map (dual_mul (dual_const bert_ceof))) outputs
                in bnd (ew2 dual_add h r) (\<lambda>hr.
                   bnd (ew2 dual_sub hr t) (\<lambda>p_score.
                     case neg_e2_idxs of
                       None \<Rightarrow> Inl MissingInput
                     | Some neg_t \<Rightarrow>
                         bnd (ew3 dual_sub (unsqueeze1 hr) neg_t) (\<lambda>n_score.
                         Inr (p_score, n_score)))))))"

definition self_adversarial_weights :: "dual list list \<Rightarrow> dual list list" where
  \<comment> \<open>\<^verbatim>\<open>F.softmax(negative_score * 1.0, dim = 1).detach()\<close>\<close>
  "self_adversarial_weights negative_score =
     detach_tensor (dual_softmax (map (map (\<lambda>x. dual_mul x (dual_const 1))) negative_score))"

datatype transe_output = NegativeScore "dual list list" | Loss dual

definition RobertaForTransE_forward ::
  "real \<Rightarrow> dual list list \<Rightarrow> dual list list \<Rightarrow> dual list list option \<Rightarrow> dual list list option
   \<Rightarrow> dual list list list option \<Rightarrow> dual list list list option
   \<Rightarrow> real list option \<Rightarrow> fault + transe_output" where
  \<comment> \<open>\<open>gamma\<close> is \<^verbatim>\<open>self._gamma.item()\<close>, that is \<^verbatim>\<open>config.gamma\<close>, a constant\<close>
  "RobertaForTransE_forward gamma h t relation_idx input_ids neg_e1_idxs neg_e2_idxs
       subsampling_weight =
     bnd (transe_differences h t relation_idx input_ids neg_e1_idxs neg_e2_idxs)
       (\<lambda>(p_score, n_score).
          let negative_score =
                map (map (\<lambda>v. dual_sub (dual_const gamma) (dual_norm1 v))) n_score
          in if input_ids = None \<and> subsampling_weight = None
             then Inr (NegativeScore negative_score)
             else
               let positive_score =
                     map (\<lambda>v. dual_sub (dual_const gamma) (dual_norm1 v)) p_score
               in bnd (ew2 dual_mul (self_adversarial_weights negative_score)
                         (map (map (\<lambda>s. dual_logsigmoid (dual_neg s))) negative_score)) (\<lambda>prod.
                  let negative_score = map dual_sum prod;
                      positive_score = map dual_logsigmoid positive_score
                  in bnd (case subsampling_weight of
                            Some w \<Rightarrow>
                              (let w = map dual_const w;
                                   weighted = (\<lambda>score.
                                     bnd (ew1 dual_mul w score) (\<lambda>ws.
                                       if fst (dual_sum w) = 0 then Inl NotFinite
                                       else Inr (dual_div (dual_neg (dual_sum ws)) (dual_sum w))))
                               in bnd (weighted positive_score) (\<lambda>positive_sample_loss.
                                  bnd (weighted negative_score) (\<lambda>negative_sample_loss.
                                  Inr (positive_sample_loss, negative_sample_loss))))
                          | None \<Rightarrow>
                              bnd (dual_mean positive_score) (\<lambda>pm.
                              bnd (dual_mean negative_score) (\<lambda>nm.
                              Inr (dual_neg pm, dual_neg nm))))
                       (\<lambda>(positive_sample_loss, negative_sample_loss).
                          Inr (Loss (dual_div
                                 (dual_add positive_sample_loss negative_sample_loss)
                                 (dual_const 2))))))"

section \<open>The losses as the specification words them\<close>

text \<open>
  The translational distance score \<open>\<gamma> - \<parallel>a + r - b\<parallel>\<^sub>1\<close>, and the margin loss
  \<open>(mean\<^sub>i (- log \<sigma>(pos\<^sub>i)) + mean\<^sub>i (- \<Sum>\<^sub>j w\<^sub>i\<^sub>j log \<sigma>(- neg\<^sub>i\<^sub>j))) / 2\<close> with \<open>w\<^sub>i\<close> the softmax of
  row \<open>i\<close> of the negative scores.
\<close>

definition spec_translational_score :: "real \<Rightarrow> real list \<Rightarrow> real list \<Rightarrow> real list \<Rightarrow> real" where
  "spec_translational_score gamma a r b =
     gamma - (\<Sum>((x, y), z)\<leftarrow>zip (zip a r) b. \<bar>x + y - z\<bar>)"

definition spec_margin_loss :: "real list \<Rightarrow> real list list \<Rightarrow> real" where
  "spec_margin_loss pos neg =
     ((\<Sum>p\<leftarrow>pos. - ln (sigmoid p)) / real (length pos)
      + (\<Sum>row\<leftarrow>neg. - (\<Sum>n\<leftarrow>row. (exp n / (\<Sum>m\<leftarrow>row. exp m)) * ln (sigmoid (- n))))
          / real (length neg)) / 2"

text \<open>
  The derivative of the margin loss when the weights are constants: only the positive scores
  and the negative scores inside \<open>log \<sigma>\<close> vary. A score is a pair of its value and its
  derivative; the derivative of \<open>- log \<sigma>(p)\<close> is \<open>- \<sigma>(- p) p'\<close> and that of
  \<open>- w log \<sigma>(- n)\<close> for a constant \<open>w\<close> is \<open>w \<sigma>(n) n'\<close>.
\<close>

definition spec_translational_score_dual :: "real \<Rightarrow> dual list \<Rightarrow> dual list \<Rightarrow> dual list \<Rightarrow> dual" where
  "spec_translational_score_dual gamma a r b =
     (spec_translational_score gamma (map fst a) (map fst r) (map fst b),
      - (\<Sum>((x, y), z)\<leftarrow>zip (zip a r) b.
           sgn (fst x + fst y - fst z) * (snd x + snd y - snd z)))"

definition spec_margin_loss_frozen :: "real list list \<Rightarrow> real list \<Rightarrow> real list list \<Rightarrow> real" where
  \<comment> \<open>the margin loss for given weights \<open>w\<close>, one per negative score\<close>
  "spec_margin_loss_frozen w pos neg =
     ((\<Sum>p\<leftarrow>pos. - ln (sigmoid p)) / real (length pos)
      + (\<Sum>(wrow, row)\<leftarrow>zip w neg. - (\<Sum>(wn, n)\<leftarrow>zip wrow row. wn * ln (sigmoid (- n))))
          / real (length neg)) / 2"

definition spec_margin_loss_derivative :: "dual list \<Rightarrow> dual list list \<Rightarrow> real" where
  "spec_margin_loss_derivative pos neg =
     ((\<Sum>p\<leftarrow>pos. - (sigmoid (- fst p) * snd p)) / real (length pos)
      + (\<Sum>row\<leftarrow>neg. \<Sum>n\<leftarrow>row. (exp (fst n) / (\<Sum>m\<leftarrow>row. exp (fst m)))
                                    * (sigmoid (fst n) * snd n))
          / real (length neg)) / 2"

text \<open>
  The weights of the margin loss as numbers: the softmax of each row of negative scores.
\<close>

definition spec_weights :: "real list list \<Rightarrow> real list list" where
  "spec_weights neg = map (\<lambda>row. map (\<lambda>n. exp n / (\<Sum>m\<leftarrow>row. exp m)) row) neg"

text \<open>
  The pairs of a query and a pooled negative whose page identifiers differ, each with its
  translational score: the pairs that count in the in-batch margin loss.
\<close>

definition spec_non_colliding_scores ::
  "real \<Rightarrow> (int \<times> real list) list \<Rightarrow> (int \<times> real list) list \<Rightarrow> real list" where
  "spec_non_colliding_scores gamma queries negatives =
     concat (map (\<lambda>(c, q).
       concat (map (\<lambda>(m, n).
         if c \<noteq> m then [gamma - (\<Sum>(x, y)\<leftarrow>zip q n. \<bar>x - y\<bar>)] else []) negatives)) queries)"

definition spec_in_batch_negative_term ::
  "real \<Rightarrow> (int \<times> real list) list \<Rightarrow> (int \<times> real list) list \<Rightarrow> real" where
  "spec_in_batch_negative_term gamma queries negatives =
     - (\<Sum>s\<leftarrow>spec_non_colliding_scores gamma queries negatives. ln (sigmoid (- s)))
       / real (length (spec_non_colliding_scores gamma queries negatives))"

section \<open>Facts about the primitives\<close>


lemma bnd_Inr [simp]: "bnd (Inr v) f = f v" by (simp add: bnd_def)
lemma bnd_Inl [simp]: "bnd (Inl e) f = Inl e" by (simp add: bnd_def)

lemma collect_map_Inr:
  "(\<And>x. x \<in> set xs \<Longrightarrow> f x = Inr (g x)) \<Longrightarrow> collect (map f xs) = Inr (map g xs)"
  by (induction xs) simp_all

lemma collect_map2_Inr:
  "(\<And>x y. (x, y) \<in> set (zip xs ys) \<Longrightarrow> f x y = Inr (g x y))
   \<Longrightarrow> collect (map2 f xs ys) = Inr (map2 g xs ys)"
proof -
  assume h: "\<And>x y. (x, y) \<in> set (zip xs ys) \<Longrightarrow> f x y = Inr (g x y)"
  have "collect (map (\<lambda>p. f (fst p) (snd p)) (zip xs ys))
        = Inr (map (\<lambda>p. g (fst p) (snd p)) (zip xs ys))"
    by (rule collect_map_Inr) (simp add: h)
  then show ?thesis by (simp add: case_prod_unfold)
qed

lemma bcast_single_left: "bcast f [x] ys = collect (map (f x) ys)"
  by (cases ys) (auto simp: bcast_def split: sum.splits)

lemma bcast_single_right: "bcast f xs [y] = collect (map (\<lambda>x. f x y) xs)"
  by (cases xs) (auto simp: bcast_def split: sum.splits)

lemma bcast_same_length: "length xs = length ys \<Longrightarrow> bcast f xs ys = collect (map2 f xs ys)"
  by (simp add: bcast_def)

lemma ew1_same: "length a = length b \<Longrightarrow> ew1 f a b = Inr (map2 f a b)"
  unfolding ew1_def by (simp add: bcast_same_length collect_map2_Inr)

lemma ew1_single_left: "ew1 f [c] ns = Inr (map (f c) ns)"
  unfolding ew1_def by (simp add: bcast_single_left collect_map_Inr)

lemma ew2_same:
  assumes "length A = length B" "\<And>a b. (a, b) \<in> set (zip A B) \<Longrightarrow> length a = length b"
  shows "ew2 f A B = Inr (map2 (map2 f) A B)"
  unfolding ew2_def using assms
  by (simp add: bcast_same_length collect_map2_Inr ew1_same)

lemma ew2_outer: "ew2 f (unsqueeze1 cs) [ns] = Inr (map (\<lambda>c. map (f c) ns) cs)"
proof -
  have "ew2 f (unsqueeze1 cs) [ns] = collect (map (\<lambda>x. ew1 f x ns) (unsqueeze1 cs))"
    unfolding ew2_def by (rule bcast_single_right)
  also have "\<dots> = collect (map (\<lambda>c. ew1 f [c] ns) cs)"
    by (simp add: unsqueeze1_def comp_def)
  also have "\<dots> = Inr (map (\<lambda>c. map (f c) ns) cs)"
    by (rule collect_map_Inr) (simp add: ew1_single_left)
  finally show ?thesis .
qed

lemma ew2_row_against_rows:
  assumes "\<And>n. n \<in> set N \<Longrightarrow> length n = length q"
  shows "ew2 f [q] N = Inr (map (\<lambda>n. map2 f q n) N)"
proof -
  have "ew2 f [q] N = collect (map (ew1 f q) N)"
    unfolding ew2_def by (rule bcast_single_left)
  also have "\<dots> = Inr (map (\<lambda>n. map2 f q n) N)"
    by (rule collect_map_Inr) (simp add: ew1_same assms)
  finally show ?thesis .
qed

lemma ew2_rows_against_row:
  assumes "\<And>n. n \<in> set N \<Longrightarrow> length n = length q"
  shows "ew2 f N [q] = Inr (map (\<lambda>n. map2 f n q) N)"
proof -
  have "ew2 f N [q] = collect (map (\<lambda>n. ew1 f n q) N)"
    unfolding ew2_def by (rule bcast_single_right)
  also have "\<dots> = Inr (map (\<lambda>n. map2 f n q) N)"
    by (rule collect_map_Inr) (simp add: ew1_same assms)
  finally show ?thesis .
qed

lemma ew3_outer:
  assumes "\<And>q n. q \<in> set Q \<Longrightarrow> n \<in> set N \<Longrightarrow> length n = length q"
  shows "ew3 f (unsqueeze1 Q) [N] = Inr (map (\<lambda>q. map (\<lambda>n. map2 f q n) N) Q)"
proof -
  have "ew3 f (unsqueeze1 Q) [N] = collect (map (\<lambda>x. ew2 f x N) (unsqueeze1 Q))"
    unfolding ew3_def by (rule bcast_single_right)
  also have "\<dots> = collect (map (\<lambda>q. ew2 f [q] N) Q)"
    by (simp add: unsqueeze1_def comp_def)
  also have "\<dots> = Inr (map (\<lambda>q. map (\<lambda>n. map2 f q n) N) Q)"
    by (rule collect_map_Inr) (simp add: ew2_row_against_rows assms)
  finally show ?thesis .
qed

lemma ew3_unsqueezed_left:
  assumes "length Q = length N"
    and "\<And>q ns n. (q, ns) \<in> set (zip Q N) \<Longrightarrow> n \<in> set ns \<Longrightarrow> length n = length q"
  shows "ew3 f (unsqueeze1 Q) N = Inr (map2 (\<lambda>q ns. map (\<lambda>n. map2 f q n) ns) Q N)"
proof -
  have "ew3 f (unsqueeze1 Q) N = collect (map2 (ew2 f) (unsqueeze1 Q) N)"
    unfolding ew3_def using assms(1) by (simp add: bcast_same_length unsqueeze1_def)
  also have "map2 (ew2 f) (unsqueeze1 Q) N = map2 (\<lambda>q ns. ew2 f [q] ns) Q N"
    by (simp add: unsqueeze1_def zip_map1 case_prod_unfold)
  also have "collect \<dots> = Inr (map2 (\<lambda>q ns. map (\<lambda>n. map2 f q n) ns) Q N)"
    by (rule collect_map2_Inr) (simp add: ew2_row_against_rows assms(2))
  finally show ?thesis .
qed

lemma ew3_unsqueezed_right:
  assumes "length Q = length N"
    and "\<And>q ns n. (ns, q) \<in> set (zip N Q) \<Longrightarrow> n \<in> set ns \<Longrightarrow> length n = length q"
  shows "ew3 f N (unsqueeze1 Q) = Inr (map2 (\<lambda>ns q. map (\<lambda>n. map2 f n q) ns) N Q)"
proof -
  have "ew3 f N (unsqueeze1 Q) = collect (map2 (ew2 f) N (unsqueeze1 Q))"
    unfolding ew3_def using assms(1) by (simp add: bcast_same_length unsqueeze1_def)
  also have "map2 (ew2 f) N (unsqueeze1 Q) = map2 (\<lambda>ns q. ew2 f ns [q]) N Q"
    by (simp add: unsqueeze1_def zip_map2 case_prod_unfold)
  also have "collect \<dots> = Inr (map2 (\<lambda>ns q. map (\<lambda>n. map2 f n q) ns) N Q)"
    by (rule collect_map2_Inr) (simp add: ew2_rows_against_row assms(2))
  finally show ?thesis .
qed

lemma length_concat_rect:
  "\<forall>r\<in>set x. length r = T \<Longrightarrow> length (concat x) = length x * T"
  by (induction x) simp_all

lemma chunk_concat_rect:
  "\<forall>r\<in>set x. length r = T \<Longrightarrow> i < length x \<Longrightarrow> take T (drop (i * T) (concat x)) = x ! i"
proof (induction x arbitrary: i)
  case Nil
  then show ?case by simp
next
  case (Cons r x)
  show ?case
  proof (cases i)
    case 0
    with Cons.prems show ?thesis by simp
  next
    case (Suc j)
    with Cons.prems have "take T (drop (j * T) (concat x)) = x ! j"
      by (intro Cons.IH) simp_all
    with Suc Cons.prems show ?thesis by (simp add: add.commute)
  qed
qed

lemma view_rect:
  assumes "0 < length x" and "\<forall>r\<in>set x. length r = T"
  shows "view (length x) x = Inr x"
proof -
  have len: "length (concat x) = length x * T"
    using assms(2) by (rule length_concat_rect)
  have "map (\<lambda>i. take T (drop (i * T) (concat x))) [0..<length x] = x"
    by (rule nth_equalityI) (simp_all add: chunk_concat_rect [OF assms(2)])
  with assms(1) len show ?thesis
    by (simp add: view_def Let_def)
qed

section \<open>The marginal span loss: results\<close>

lemma map2_map_same: "map2 f xs (map g xs) = map (\<lambda>x. f x (g x)) xs"
  by (induction xs) simp_all

lemma masked_target_eq:
  "map2 (map2 (\<lambda>t m. t * (1 - long m))) target (map (map (\<lambda>t. t = ig)) target)
   = map (map (\<lambda>t. if t = ig then 0 else t)) target"
  by (simp add: map2_map_same long_def)

lemma gather_rows:
  assumes "length target = length logits"
    and "\<forall>row\<in>set logits. length row = L"
    and "\<forall>trow\<in>set target. \<forall>k\<in>set trow. 0 \<le> k \<and> k < int L"
  shows "gather logits target
         = Inr (map2 (\<lambda>row trow. map (\<lambda>k. row ! nat k) trow) logits target)"
proof -
  have "gather_row row trow = Inr (map (\<lambda>k. row ! nat k) trow)"
    if "(row, trow) \<in> set (zip logits target)" for row trow
  proof -
    from that have "row \<in> set logits" "trow \<in> set target"
      by (auto dest: set_zip_leftD set_zip_rightD)
    with assms(2,3) show ?thesis
      by (simp add: gather_row_def list_all_iff)
  qed
  then have "collect (map2 gather_row logits target)
             = Inr (map2 (\<lambda>row trow. map (\<lambda>k. row ! nat k) trow) logits target)"
    by (rule collect_map2_Inr)
  with assms(1) show ?thesis by (simp add: gather_def)
qed

lemma masked_fill_rows:
  "length logits = length target \<Longrightarrow>
   masked_fill (map2 (\<lambda>row trow. map (\<lambda>k. row ! nat k) (map (\<lambda>t. if t = ig then 0 else t) trow)) logits target)
     (map (map (\<lambda>t. t = ig)) target) (- 10000)
   = map2 (spec_g_row ig) logits target"
proof (induction logits target rule: list_induct2)
  case Nil
  then show ?case by (simp add: masked_fill_def)
next
  case (Cons row logits trow target)
  have "map2 (\<lambda>a m. if m then - 10000 else a)
          (map (\<lambda>k. row ! nat k) (map (\<lambda>t. if t = ig then 0 else t) trow))
          (map (\<lambda>t. t = ig) trow)
        = spec_g_row ig row trow"
    by (induction trow) (simp_all add: spec_g_row_def Let_def)
  with Cons.IH show ?case by (simp add: masked_fill_def)
qed

lemma logsumexp_rows:
  "\<forall>r\<in>set x. r \<noteq> [] \<Longrightarrow> logsumexp x = Inr (map spec_logsumexp x)"
  unfolding logsumexp_def
  by (rule collect_map_Inr) (simp add: logsumexp_row_def spec_logsumexp_def)

lemma length_spec_g_row: "length (spec_g_row ig row trow) = length trow"
  by (simp add: spec_g_row_def Let_def)

lemma loss_rows:
  "length logits = length target \<Longrightarrow>
   map2 (\<lambda>s n. - (s - n)) (map spec_logsumexp (map2 (spec_g_row ig) logits target))
                            (map spec_logsumexp logits)
   = map2 (spec_row_loss ig) logits target"
  by (induction logits target rule: list_induct2) (simp_all add: spec_row_loss_def)

lemma example_losses_rows:
  assumes shape_logits: "logits \<noteq> []" "\<forall>row\<in>set logits. length row = L" "0 < L"
    and shape_target: "length target = length logits" "\<forall>trow\<in>set target. length trow = T" "0 < T"
    and in_range: "\<forall>trow\<in>set target. \<forall>t\<in>set trow. t \<noteq> ig \<longrightarrow> 0 \<le> t \<and> t < int L"
  shows "or_softmax_example_losses logits target ig = Inr (map2 (spec_row_loss ig) logits target)"
proof -
  let ?mt = "map (map (\<lambda>t. if t = ig then 0 else t)) target"
  let ?g = "map2 (spec_g_row ig) logits target"
  have len: "length logits = length target" "0 < length logits"
    using shape_logits(1) shape_target(1) by simp_all
  have mt_range: "\<forall>trow\<in>set ?mt. \<forall>k\<in>set trow. 0 \<le> k \<and> k < int L"
    using in_range shape_logits(3) by auto
  have mt_len: "length ?mt = length logits"
    using shape_target(1) by simp
  have "gather logits ?mt
      = Inr (map2 (\<lambda>row trow. map (\<lambda>k. row ! nat k) trow) logits ?mt)"
    using mt_len shape_logits(2) mt_range by (rule gather_rows)
  then have gathered: "gather logits ?mt
      = Inr (map2 (\<lambda>row trow. map (\<lambda>k. row ! nat k) (map (\<lambda>t. if t = ig then 0 else t) trow)) logits target)"
    by (simp add: zip_map2 case_prod_unfold)
  have filled: "masked_fill (map2 (\<lambda>row trow. map (\<lambda>k. row ! nat k) (map (\<lambda>t. if t = ig then 0 else t) trow)) logits target)
      (map (map (\<lambda>t. t = ig)) target) (- 10000) = ?g"
    using len(1) by (rule masked_fill_rows)
  have g_rows: "\<forall>r\<in>set ?g. length r = T"
    using shape_target(2) by (auto simp: length_spec_g_row dest: set_zip_rightD)
  have view_g: "view (length logits) ?g = Inr ?g"
    using view_rect [of ?g T] g_rows len by simp
  have view_l: "view (length logits) logits = Inr logits"
    using view_rect [of logits L] shape_logits(2) len(2) by simp
  have lse_g: "logsumexp ?g = Inr (map spec_logsumexp ?g)"
    using g_rows shape_target(3) by (intro logsumexp_rows) auto
  have lse_l: "logsumexp logits = Inr (map spec_logsumexp logits)"
    using shape_logits(2,3) by (intro logsumexp_rows) auto
  show ?thesis
    unfolding or_softmax_example_losses_def Let_def masked_target_eq
    by (simp only: gathered filled view_g view_l lse_g lse_l bnd_Inr loss_rows [OF len(1)])
qed

lemma mean_of_rows:
  assumes "logits \<noteq> []" "length target = length logits"
  shows "mean (map2 (spec_row_loss ig) logits target)
         = Inr (spec_marginal_span_loss ig logits target)"
proof -
  from assms obtain r rs t ts where "logits = r # rs" "target = t # ts"
    by (cases logits; cases target) auto
  then show ?thesis
    using assms(2) by (simp add: mean_def spec_marginal_span_loss_def)
qed

text \<open>
  Claim C1. For a batch of \<open>N \<ge> 1\<close> rows of \<open>L \<ge> 1\<close> logits and \<open>N\<close> rows of
  \<open>T \<ge> 1\<close> targets whose entries other than the ignore index \<open>-1\<close> lie in \<open>[0, L)\<close>, the
  loss function returns the mean over the examples of the log-sum-exp of the logits row
  minus the log-sum-exp of the gathered row, the gathered row being the logits at the
  target indices (placeholder index 0 at ignored slots) with the ignored slots overwritten
  by the sentinel \<open>-10000\<close>.
\<close>

theorem marginal_span_loss_is_mean_of_rows:
  assumes "logits \<noteq> []" "\<forall>row\<in>set logits. length row = L" "0 < L"
    and "length target = length logits" "\<forall>trow\<in>set target. length trow = T" "0 < T"
    and "\<forall>trow\<in>set target. \<forall>t\<in>set trow. t \<noteq> - 1 \<longrightarrow> 0 \<le> t \<and> t < int L"
  shows "or_softmax_cross_entropy_loss_one_doc logits target (- 1)
         = Inr (spec_marginal_span_loss (- 1) logits target)"
proof -
  have "or_softmax_example_losses logits target (- 1)
        = Inr (map2 (spec_row_loss (- 1)) logits target)"
    using assms by (rule example_losses_rows)
  then show ?thesis
    using mean_of_rows [OF assms(1,4)]
    by (simp add: or_softmax_cross_entropy_loss_one_doc_def)
qed

theorem marginal_span_loss_is_mean_of_rows_witness:
  "or_softmax_cross_entropy_loss_one_doc [[5, 4, 1, 1], [1, 2, 3, 4]] [[0, - 1], [2, 3]] (- 1)
   = Inr (spec_marginal_span_loss (- 1) [[5, 4, 1, 1], [1, 2, 3, 4]] [[0, - 1], [2, 3]])"
  using marginal_span_loss_is_mean_of_rows
    [of "[[5, 4, 1, 1], [1, 2, 3, 4]]" 4 "[[0, - 1], [2, 3]]" 2]
  by simp

lemma all_ignored_numerator:
  assumes "trow \<noteq> []" "\<forall>t\<in>set trow. t = ig"
  shows "spec_logsumexp (spec_g_row ig row trow) = ln (real (length trow)) - 10000"
proof -
  have "spec_g_row ig row trow = replicate (length trow) (- 10000)"
    using assms(2) by (induction trow) (simp_all add: spec_g_row_def Let_def)
  then have "spec_logsumexp (spec_g_row ig row trow)
             = ln (real (length trow) * exp (- 10000))"
    by (simp add: spec_logsumexp_def sum_list_replicate)
  also have "\<dots> = ln (real (length trow)) + ln (exp (- 10000 :: real))"
    using assms(1) by (intro ln_mult_pos) simp_all
  finally show ?thesis by simp
qed

text \<open>
  Claim C6. In a well-shaped batch (as for C1) an example whose \<open>T \<ge> 1\<close> target slots are
  all the ignore index does not make the computation fail or leave the reals: the per-example
  losses and their mean are returned, and the loss of that example is the log-sum-exp of its
  logits minus the numerator \<open>ln T - 10000\<close>, the log-sum-exp of a row of \<open>T\<close> sentinels.
\<close>

theorem all_ignored_row_loss_finite:
  assumes "logits \<noteq> []" "\<forall>row\<in>set logits. length row = L" "0 < L"
    and "length target = length logits" "\<forall>trow\<in>set target. length trow = T" "0 < T"
    and "\<forall>trow\<in>set target. \<forall>t\<in>set trow. t \<noteq> - 1 \<longrightarrow> 0 \<le> t \<and> t < int L"
    and "i < length target" "\<forall>t\<in>set (target ! i). t = - 1"
  shows "\<exists>losses v.
           or_softmax_example_losses logits target (- 1) = Inr losses
         \<and> losses ! i = ln (\<Sum>x\<leftarrow>logits ! i. exp x) - (ln (real T) - 10000)
         \<and> or_softmax_cross_entropy_loss_one_doc logits target (- 1) = Inr v"
proof -
  have rows: "or_softmax_example_losses logits target (- 1)
        = Inr (map2 (spec_row_loss (- 1)) logits target)"
    using assms(1-7) by (rule example_losses_rows)
  have ti: "target ! i \<in> set target" using assms(8) by simp
  then have "target ! i \<noteq> []" "length (target ! i) = T"
    using assms(5,6) by auto
  then have "spec_logsumexp (spec_g_row (- 1) (logits ! i) (target ! i)) = ln (real T) - 10000"
    using all_ignored_numerator [of "target ! i" "- 1" "logits ! i"] assms(9) by simp
  then have "map2 (spec_row_loss (- 1)) logits target ! i
             = ln (\<Sum>x\<leftarrow>logits ! i. exp x) - (ln (real T) - 10000)"
    using assms(4,8) by (simp add: spec_row_loss_def spec_logsumexp_def)
  moreover have "or_softmax_cross_entropy_loss_one_doc logits target (- 1)
        = Inr (spec_marginal_span_loss (- 1) logits target)"
    using rows mean_of_rows [OF assms(1,4)]
    by (simp add: or_softmax_cross_entropy_loss_one_doc_def)
  ultimately show ?thesis using rows by blast
qed

theorem all_ignored_row_loss_finite_witness:
  "\<exists>losses v.
      or_softmax_example_losses [[5, 4, 1, 1], [1, 2, 3, 4]] [[0, 1], [- 1, - 1]] (- 1) = Inr losses
    \<and> losses ! 1 = ln (exp 1 + exp 2 + exp 3 + exp 4) - (ln 2 - 10000)
    \<and> or_softmax_cross_entropy_loss_one_doc [[5, 4, 1, 1], [1, 2, 3, 4]] [[0, 1], [- 1, - 1]] (- 1)
        = Inr v"
  using all_ignored_row_loss_finite
    [of "[[5, 4, 1, 1], [1, 2, 3, 4]]" 4 "[[0, 1], [- 1, - 1]]" 2 1]
  by (simp add: add.assoc)

lemmas span_loss_eval = or_softmax_cross_entropy_loss_one_doc_def or_softmax_example_losses_def
  Let_def gather_def gather_row_def masked_fill_def view_def logsumexp_def logsumexp_row_def
  mean_def long_def

lemma ln_exp_add_less:
  fixes a b c :: real
  assumes "b < c"
  shows "ln (exp a + exp b) < ln (exp a + exp c)"
    and "a < ln (exp a + exp c)"
proof -
  have pos: "0 < exp a + exp b" by (simp add: add_pos_pos)
  have "exp a + exp b < exp a + exp c" using assms by simp
  then show "ln (exp a + exp b) < ln (exp a + exp c)"
    using pos by (rule ln_strict_mono)
  have "ln (exp a) < ln (exp a + exp c)"
    by (rule ln_strict_mono) simp_all
  then show "a < ln (exp a + exp c)" by simp
qed

text \<open>
  Claim C7. For the single row of logits \<open>[5, 4, 1, 1]\<close> and ignore index \<open>-1\<close>, the loss with
  the two gold positions 0 and 1 is strictly lower than the loss with position 0 alone and
  than the loss with position 1 alone, whether the single gold position fills a target row
  of width 2 (the other slot ignored) or of width 1.
\<close>

theorem two_gold_positions_lower_loss:
  "\<exists>both first second first_only second_only.
      or_softmax_cross_entropy_loss_one_doc [[5, 4, 1, 1]] [[0, 1]] (- 1) = Inr both
    \<and> or_softmax_cross_entropy_loss_one_doc [[5, 4, 1, 1]] [[0, - 1]] (- 1) = Inr first
    \<and> or_softmax_cross_entropy_loss_one_doc [[5, 4, 1, 1]] [[1, - 1]] (- 1) = Inr second
    \<and> or_softmax_cross_entropy_loss_one_doc [[5, 4, 1, 1]] [[0]] (- 1) = Inr first_only
    \<and> or_softmax_cross_entropy_loss_one_doc [[5, 4, 1, 1]] [[1]] (- 1) = Inr second_only
    \<and> both < first \<and> both < second \<and> both < first_only \<and> both < second_only"
proof -
  let ?norm = "ln (exp 5 + (exp 4 + 2 * exp 1)) :: real"
  have both: "or_softmax_cross_entropy_loss_one_doc [[5, 4, 1, 1]] [[0, 1]] (- 1)
      = Inr (?norm - ln (exp 5 + exp 4))"
    by (simp add: span_loss_eval)
  have first: "or_softmax_cross_entropy_loss_one_doc [[5, 4, 1, 1]] [[0, - 1]] (- 1)
      = Inr (?norm - ln (exp 5 + exp (- 10000)))"
    by (simp add: span_loss_eval)
  have second: "or_softmax_cross_entropy_loss_one_doc [[5, 4, 1, 1]] [[1, - 1]] (- 1)
      = Inr (?norm - ln (exp 4 + exp (- 10000)))"
    by (simp add: span_loss_eval)
  have first_only: "or_softmax_cross_entropy_loss_one_doc [[5, 4, 1, 1]] [[0]] (- 1)
      = Inr (?norm - 5)"
    by (simp add: span_loss_eval)
  have second_only: "or_softmax_cross_entropy_loss_one_doc [[5, 4, 1, 1]] [[1]] (- 1)
      = Inr (?norm - 4)"
    by (simp add: span_loss_eval)
  have n1: "ln (exp 5 + exp (- 10000)) < ln (exp 5 + exp (4::real))"
    by (rule ln_exp_add_less) simp
  have "ln (exp 4 + exp (- 10000)) < ln (exp 4 + exp (5::real))"
    by (rule ln_exp_add_less) simp
  then have n2: "ln (exp 4 + exp (- 10000)) < ln (exp 5 + exp (4::real))"
    by (simp add: add.commute)
  have n3: "5 < ln (exp 5 + exp (4::real))"
    by (rule ln_exp_add_less(2) [where b = 0]) simp
  have "4 < ln (exp 4 + exp (5::real))"
    by (rule ln_exp_add_less(2) [where b = 0]) simp
  then have n4: "4 < ln (exp 5 + exp (4::real))"
    by (simp add: add.commute)
  have "?norm - ln (exp 5 + exp 4) < ?norm - ln (exp 5 + exp (- 10000))"
    and "?norm - ln (exp 5 + exp 4) < ?norm - ln (exp 4 + exp (- 10000))"
    and "?norm - ln (exp 5 + exp 4) < ?norm - 5"
    and "?norm - ln (exp 5 + exp 4) < ?norm - 4"
    using n1 n2 n3 n4 by simp_all
  with both first second first_only second_only show ?thesis
    by blast
qed

text \<open>
  Claim C10. Gold indices are not deduplicated: for logits \<open>[2, 0]\<close> and the target row
  \<open>[0, 0]\<close> the gathered row is \<open>[2, 2]\<close>, the logit at index 0 is counted twice in the
  numerator, and the returned loss \<open>ln (e\<^sup>2 + 1) - ln (e\<^sup>2 + e\<^sup>2)\<close> is strictly negative.
\<close>

theorem duplicate_gold_index_negative_loss:
  "gather [[2, 0]] [[0, 0]] = Inr [[2, 2]]
   \<and> or_softmax_cross_entropy_loss_one_doc [[2, 0]] [[0, 0]] (- 1)
       = Inr (ln (exp 2 + 1) - ln (exp 2 + exp 2))
   \<and> ln (exp 2 + 1) - ln (exp 2 + exp 2) < (0::real)"
proof -
  have "ln (exp 2 + 1) < ln (exp 2 + exp (2::real))"
    by (rule ln_strict_mono) (simp_all add: add_pos_pos)
  then show ?thesis by (simp add: span_loss_eval)
qed

section \<open>The contrastive heads: results\<close>

subsection \<open>The rounding \<open>float32\<close>\<close>

lemma round_half_even_int [simp]: "round_half_even (of_int n) = n"
  by (simp add: round_half_even_def)

lemma float32_binade:
  assumes "2 ^ k \<le> \<bar>x\<bar>" "\<bar>x\<bar> < 2 ^ Suc k"
  shows "float32 x = of_int (round_half_even (x * 2 ^ 23 / 2 ^ k)) * 2 ^ k / 2 ^ 23"
proof -
  have "(0::real) < 2 ^ k" by simp
  with assms(1) have x: "x \<noteq> 0" by linarith
  have "\<lfloor>log 2 \<bar>x\<bar>\<rfloor> = int k"
    using assms x by (subst floor_log_eq_powr_iff) (simp_all add: powr_realpow powr_add)
  then have e: "max \<lfloor>log 2 \<bar>x\<bar>\<rfloor> (- 126) = int k" by simp
  have u: "2 powr (real k - 23) = (2 ^ k / 2 ^ 23 :: real)"
    by (simp add: powr_diff powr_realpow)
  show ?thesis
    using x by (simp add: float32_def Let_def e u)
qed

lemma float32_small_integer:
  assumes "2 ^ k \<le> \<bar>n\<bar>" "\<bar>n\<bar> < 2 ^ Suc k" "k \<le> 23"
  shows "float32 (of_int n) = of_int n"
proof -
  have p: "(2::real) ^ 23 = 2 ^ (23 - k) * 2 ^ k"
    using assms(3) by (simp add: power_add [symmetric])
  have "of_int n * 2 ^ 23 / 2 ^ k = (of_int n * (2 ^ (23 - k) * 2 ^ k) / 2 ^ k :: real)"
    by (simp only: p)
  also have "\<dots> = of_int (n * 2 ^ (23 - k))"
    by simp
  finally have "round_half_even (of_int n * 2 ^ 23 / 2 ^ k) = n * 2 ^ (23 - k)"
    by (simp only: round_half_even_int)
  moreover have "2 ^ k \<le> \<bar>of_int n :: real\<bar>" "\<bar>of_int n :: real\<bar> < 2 ^ Suc k"
  proof -
    have "(of_int (2 ^ k) :: real) \<le> of_int \<bar>n\<bar>" "(of_int \<bar>n\<bar> :: real) < of_int (2 ^ Suc k)"
      using assms(1,2) by (simp_all only: of_int_le_iff of_int_less_iff)
    then show "2 ^ k \<le> \<bar>of_int n :: real\<bar>" "\<bar>of_int n :: real\<bar> < 2 ^ Suc k"
      by simp_all
  qed
  ultimately have "float32 (of_int n) = of_int (n * 2 ^ (23 - k)) * 2 ^ k / 2 ^ 23"
    by (simp add: float32_binade [of k "of_int n"])
  also have "\<dots> = of_int n * (2 ^ (23 - k) * 2 ^ k) / 2 ^ 23"
    by simp
  also have "\<dots> = of_int n"
    by (simp only: p [symmetric]) simp
  finally show ?thesis .
qed

lemma float32_values:
  "float32 0 = 0" "float32 1 = 1" "float32 17 = 17"
  "float32 (- 9999) = - 9999" "float32 (- 9998) = - 9998" "float32 (- 9983) = - 9983"
  using float32_small_integer [of 0 1] float32_small_integer [of 4 17]
    float32_small_integer [of 13 "- 9999"] float32_small_integer [of 13 "- 9998"]
    float32_small_integer [of 13 "- 9983"]
  by (simp_all add: float32_def)

lemma float32_absorbs_shift: "float32 (2 ^ 40 - 10000) = 2 ^ 40"
proof -
  have "\<lfloor>(2 ^ 40 - 10000) * 2 ^ 23 / 2 ^ 39 :: real\<rfloor> = 2 ^ 24 - 1"
    by (rule floor_unique) simp_all
  then have "round_half_even ((2 ^ 40 - 10000) * 2 ^ 23 / 2 ^ 39) = 2 ^ 24"
    by (simp add: round_half_even_def Let_def)
  then show ?thesis
    using float32_binade [of 39 "2 ^ 40 - 10000"] by simp
qed

subsection \<open>The in-batch negative scores\<close>

lemma in_batch_neg_scores_eq:
  assumes "length cur_page_ids = length query_rep"
    and "length (concat neg_page_ids) = length neg_rep"
  shows "in_batch_neg_scores fl query_rep neg_rep cur_page_ids neg_page_ids
         = Inr (map2 (\<lambda>q c. map2 (\<lambda>n m. fl ((\<Sum>(x, y)\<leftarrow>zip q n. x * y)
                                        - 10000 * (if c = m then 1 else 0)))
                               neg_rep (concat neg_page_ids))
                     query_rep cur_page_ids)"
proof -
  let ?ids = "concat neg_page_ids"
  let ?mask = "map (\<lambda>c. map (\<lambda>m. if c = m then 1 else (0::real)) ?ids) cur_page_ids"
  have mask: "ew2 (\<lambda>c n. if c = n then 1 else (0::real)) (unsqueeze1 cur_page_ids) [?ids]
              = Inr ?mask"
    by (rule ew2_outer)
  have "ew2 (\<lambda>s m. fl (s - m)) (matmul_transposed query_rep neg_rep)
          (map (map ((*) 10000)) ?mask)
        = Inr (map2 (map2 (\<lambda>s m. fl (s - m))) (matmul_transposed query_rep neg_rep)
                 (map (map ((*) 10000)) ?mask))"
    using assms by (intro ew2_same) (auto simp: matmul_transposed_def set_zip)
  also have "map2 (map2 (\<lambda>s m. fl (s - m))) (matmul_transposed query_rep neg_rep)
                 (map (map ((*) 10000)) ?mask)
        = map2 (\<lambda>q c. map2 (\<lambda>n m. fl ((\<Sum>(x, y)\<leftarrow>zip q n. x * y)
                                        - 10000 * (if c = m then 1 else 0)))
                               neg_rep ?ids)
                     query_rep cur_page_ids"
    by (simp add: matmul_transposed_def zip_map1 zip_map2 case_prod_unfold comp_def)
  finally show ?thesis
    by (simp add: in_batch_neg_scores_def Let_def mask)
qed



lemmas in_batch_eval = in_batch_neg_scores_def Let_def ew2_def ew1_def bcast_def unsqueeze1_def
  matmul_transposed_def bnd_def


text \<open>
  The shifted entry can be the raw score itself: in \<open>float32\<close> the neighbours of \<open>2\<^sup>4\<^sup>0\<close> are
  \<open>2\<^sup>1\<^sup>6\<close> apart, so \<open>2\<^sup>4\<^sup>0 - 10000\<close> rounds back to \<open>2\<^sup>4\<^sup>0\<close> and the colliding negative
  keeps its raw score.
\<close>

lemma in_batch_collision_absorbed:
  "in_batch_neg_scores float32 [[2 ^ 20]] [[2 ^ 20]] [7] [[7]] = Inr [[2 ^ 40]]"
  using float32_absorbs_shift by (simp add: in_batch_eval)

text \<open>
  These are the negative scores of \<^verbatim>\<open>RobertaForFix.forward\<close>, whose constructor sets
  \<^verbatim>\<open>self.in_batch = True\<close>.
\<close>

lemma fix_init_in_batch:
  "RobertaForFix_forward fl (RobertaForFix_init K) entity_rep cur_page_ids neg_page_ids
   = (case batch_layout K entity_rep of (bsz, query_rep, pos_rep, neg_rep) \<Rightarrow>
        bnd (ew2 (*) query_rep pos_rep) (\<lambda>prod.
        bnd (in_batch_neg_scores fl query_rep neg_rep cur_page_ids neg_page_ids) (\<lambda>neg_scores.
        listwise_loss bsz (map sum_list prod) neg_scores)))"
  by (simp add: RobertaForFix_forward_def RobertaForFix_init_def Let_def)

subsection \<open>The listwise loss\<close>

lemma sum_list_exp_mset:
  "mset ns = mset ns' \<Longrightarrow> (\<Sum>x\<leftarrow>ns. exp x) = (\<Sum>x\<leftarrow>ns'. exp (x::real))"
proof -
  assume "mset ns = mset ns'"
  then have "mset (map exp ns) = mset (map exp ns')" by simp
  then have "sum_mset (mset (map exp ns)) = sum_mset (mset (map exp ns'))"
    by (simp only:)
  then show ?thesis by (simp only: sum_mset_sum_list)
qed

lemma cross_entropy_rows_permuted:
  "list_all2 (\<lambda>ns ns'. mset ns = mset ns') neg_scores neg_scores' \<Longrightarrow>
   map2 cross_entropy_row (map2 (@) (unsqueeze1 pos_scores) neg_scores) (replicate bsz 0)
   = map2 cross_entropy_row (map2 (@) (unsqueeze1 pos_scores) neg_scores') (replicate bsz 0)"
proof (induction neg_scores neg_scores' arbitrary: pos_scores bsz rule: list_all2_induct)
  case Nil
  then show ?case by simp
next
  case (Cons ns neg_scores ns' neg_scores')
  show ?case
  proof (cases pos_scores)
    case Nil
    then show ?thesis by (simp add: unsqueeze1_def)
  next
    case pos: (Cons p ps)
    show ?thesis
    proof (cases bsz)
      case 0
      then show ?thesis by simp
    next
      case (Suc b)
      have "cross_entropy_row ([p] @ ns) 0 = cross_entropy_row ([p] @ ns') 0"
        using Cons.hyps(1) by (simp add: cross_entropy_row_def sum_list_exp_mset [of ns ns'])
      moreover have "map2 cross_entropy_row (map2 (@) (unsqueeze1 ps) neg_scores) (replicate b 0)
        = map2 cross_entropy_row (map2 (@) (unsqueeze1 ps) neg_scores') (replicate b 0)"
        by (rule Cons.IH)
      ultimately show ?thesis
        using pos Suc by (simp add: unsqueeze1_def)
    qed
  qed
qed

text \<open>
  Claim C4. The listwise loss (logits \<open>[positive score, negative scores ...]\<close> per query,
  label 0 for every query, mean cross entropy) does not change when the negative scores of
  each query are permuted.
\<close>

theorem listwise_loss_permutation_invariant:
  assumes "list_all2 (\<lambda>ns ns'. mset ns = mset ns') neg_scores neg_scores'"
  shows "listwise_loss bsz pos_scores neg_scores = listwise_loss bsz pos_scores neg_scores'"
proof -
  have len: "length neg_scores = length neg_scores'"
    using assms by (rule list_all2_lengthD)
  show ?thesis
    unfolding listwise_loss_def cat_last_def CrossEntropyLoss_def Let_def
    using len cross_entropy_rows_permuted [OF assms, of pos_scores bsz]
    by (simp add: unsqueeze1_def)
qed

lemmas listwise_eval = listwise_loss_def cat_last_def CrossEntropyLoss_def Let_def unsqueeze1_def
  cross_entropy_row_def mean_def bnd_def

theorem listwise_loss_permutation_invariant_witness:
  "listwise_loss 2 [1, 2] [[3, 4, 5], [6, 7, 8]] = listwise_loss 2 [1, 2] [[5, 3, 4], [7, 8, 6]]
   \<and> listwise_loss 2 [1, 2] [[3, 4, 5], [6, 7, 8]]
       = Inr ((ln (exp 1 + exp 3 + exp 4 + exp 5) - 1 + (ln (exp 2 + exp 6 + exp 7 + exp 8) - 2)) / 2)"
proof -
  have "mset [3, 4, 5 :: real] = mset [5, 3, 4]" "mset [6, 7, 8 :: real] = mset [7, 8, 6]"
    by (simp_all add: add_mset_commute)
  then have "list_all2 (\<lambda>ns ns'. mset ns = mset ns')
               [[3, 4, 5 :: real], [6, 7, 8]] [[5, 3, 4], [7, 8, 6]]"
    by simp
  then have "listwise_loss 2 [1, 2] [[3, 4, 5], [6, 7, 8]]
             = listwise_loss 2 [1, 2] [[5, 3, 4], [7, 8, 6]]"
    by (rule listwise_loss_permutation_invariant)
  moreover have "listwise_loss 2 [1, 2] [[3, 4, 5], [6, 7, 8]]
       = Inr ((ln (exp 1 + exp 3 + exp 4 + exp 5) - 1 + (ln (exp 2 + exp 6 + exp 7 + exp 8) - 2)) / 2)"
    by (simp add: listwise_eval numeral_2_eq_2 add.assoc)
  ultimately show ?thesis by simp
qed

subsection \<open>Batches that are not \<open>bsz * (K + 2)\<close> rows\<close>

text \<open>
  Cutting the batch never fails: \<open>bsz\<close> is the length of the batch divided by \<open>K + 2\<close>,
  rounded down, and the negatives are all the rows after the first \<open>2 * bsz\<close>.
\<close>

lemma batch_layout_slices:
  "(case batch_layout K entity_rep of (bsz, query_rep, pos_rep, neg_rep) \<Rightarrow>
      bsz = length entity_rep div (K + 2)
    \<and> query_rep @ pos_rep @ neg_rep = entity_rep
    \<and> length query_rep = bsz \<and> length pos_rep = bsz
    \<and> length neg_rep = bsz * K + length entity_rep mod (K + 2))"
proof -
  let ?n = "length entity_rep" and ?b = "length entity_rep div (K + 2)"
  have n: "?n = ?b * (K + 2) + ?n mod (K + 2)"
    by (simp only: div_mult_mod_eq)
  then have le: "2 * ?b \<le> ?n"
    by (metis add_mult_distrib2 le_add2 mult.commute trans_le_add1)
  have "take ?b entity_rep @ take ?b (drop ?b entity_rep) = take (2 * ?b) entity_rep"
    by (simp add: take_add mult_2)
  then have "(take ?b entity_rep @ take ?b (drop ?b entity_rep)) @ drop (2 * ?b) entity_rep
             = entity_rep"
    by (simp only: append_take_drop_id)
  then have cat: "take ?b entity_rep @ slice ?b (2 * ?b) entity_rep @ drop (2 * ?b) entity_rep
             = entity_rep"
    by (simp add: slice_def)
  have "?b * (K + 2) = 2 * ?b + ?b * K"
    by (simp add: algebra_simps)
  with n have "?n = 2 * ?b + (?b * K + ?n mod (K + 2))"
    by linarith
  then have rest: "?n - 2 * ?b = ?b * K + ?n mod (K + 2)"
    by linarith
  show ?thesis
    using le cat rest by (simp add: batch_layout_def Let_def slice_def)
qed

lemma rows_same_length:
  assumes "\<forall>v\<in>set A. length v = d" "\<forall>v\<in>set B. length v = (d::nat)"
  shows "(a, b) \<in> set (zip A B) \<Longrightarrow> length a = length b"
proof -
  assume "(a, b) \<in> set (zip A B)"
  then have "a \<in> set A" "b \<in> set B"
    by (auto dest: set_zip_leftD set_zip_rightD)
  with assms show ?thesis by simp
qed

lemma layout_shapes:
  assumes "\<forall>row\<in>set entity_rep. length row = d"
  shows "length (take b entity_rep) = min b (length entity_rep)"
    and "\<forall>row\<in>set (take b entity_rep). length row = d"
    and "\<forall>row\<in>set (slice b c entity_rep). length row = d"
    and "\<forall>row\<in>set (drop c entity_rep). length row = d"
  using assms by (auto simp: slice_def dest: in_set_takeD in_set_dropD)

lemma ew1_mismatch:
  "length q \<noteq> length x \<Longrightarrow> length q \<noteq> 1 \<Longrightarrow> length x \<noteq> 1 \<Longrightarrow> ew1 f q x = Inl InvalidShape"
  by (simp add: ew1_def bcast_def)

lemma ew2_first_row_fault: "ew1 f q x = Inl e \<Longrightarrow> ew2 f [q] (x # xs) = Inl e"
  by (simp add: ew2_def bcast_single_left)

lemma ew3_first_row_fault:
  "length Q = length V \<Longrightarrow> ew2 f [q] v = Inl e \<Longrightarrow> ew3 f (unsqueeze1 (q # Q)) (v # V) = Inl e"
  by (simp add: ew3_def bcast_same_length unsqueeze1_def)

text \<open>
  \<^verbatim>\<open>RobertaForMerge.forward\<close> reshapes the negatives with \<^verbatim>\<open>view(bsz, self.neg_K, -1)\<close>. With
  surplus rows the reshape fails, or it succeeds with rows longer than the queries' and the
  product with the queries fails; both are shape errors.
\<close>

lemma merge_rejects_malformed:
  assumes rows: "\<forall>row\<in>set entity_rep. length row = d" and d: "2 \<le> d"
    and malformed: "length entity_rep mod (K + 2) \<noteq> 0"
    and nonempty: "K + 2 \<le> length entity_rep"
  shows "RobertaForMerge_forward K entity_rep tmp = Inl InvalidShape"
proof -
  define b where "b = length entity_rep div (K + 2)"
  define r where "r = length entity_rep mod (K + 2)"
  define query_rep where "query_rep = take b entity_rep"
  define pos_rep where "pos_rep = slice b (2 * b) entity_rep"
  define neg_rep where "neg_rep = drop (2 * b) entity_rep"
  define flat where "flat = concat neg_rep"
  have layout: "batch_layout K entity_rep = (b, query_rep, pos_rep, neg_rep)"
    by (simp add: batch_layout_def Let_def b_def query_rep_def pos_rep_def neg_rep_def)
  have b: "1 \<le> b"
    using nonempty unfolding b_def by (simp add: Suc_le_eq div_greater_zero_iff)
  have r: "0 < r" using malformed by (simp add: r_def)
  have lens: "length query_rep = b" "length pos_rep = b" "length neg_rep = b * K + r"
    using batch_layout_slices [where K = K and entity_rep = entity_rep]
    unfolding layout r_def by simp_all
  have neg_rows: "\<forall>row\<in>set neg_rep. length row = d"
    and query_rows: "\<forall>row\<in>set query_rep. length row = d"
    and pos_rows: "\<forall>row\<in>set pos_rep. length row = d"
    using layout_shapes [OF rows] by (simp_all add: neg_rep_def query_rep_def pos_rep_def)
  have numel: "length flat = (b * K + r) * d"
    unfolding flat_def using length_concat_rect [OF neg_rows] lens(3) by simp
  show ?thesis
  proof (cases "b * K = 0")
    case True
    then have "view3 b K neg_rep = Inl InvalidShape"
      by (simp add: view3_def Let_def)
    then show ?thesis
      by (simp add: RobertaForMerge_forward_def layout)
  next
    case bk: False
    show ?thesis
    proof (cases "length flat mod (b * K) = 0")
      case False
      with bk have "view3 b K neg_rep = Inl InvalidShape"
        by (simp add: view3_def Let_def flat_def)
      then show ?thesis
        by (simp add: RobertaForMerge_forward_def layout)
    next
      case True
      define w where "w = length flat div (b * K)"
      have nw: "length flat = b * K * w"
        using True mult_div_mod_eq [of "b * K" "length flat"] by (simp add: w_def)
      have dw: "d < w"
      proof (rule ccontr)
        assume "\<not> d < w"
        then have "w \<le> d" by simp
        then have "b * K * w \<le> b * K * d" by (rule mult_le_mono2)
        also have "b * K * d < (b * K + r) * d"
          using r d by (simp add: add_mult_distrib)
        also have "(b * K + r) * d = length flat" by (simp only: numel)
        also have "length flat = b * K * w" by (rule nw)
        finally show False by simp
      qed
      have K: "0 < K" using bk by simp
      have wle: "w \<le> length flat"
        using nw bk by simp
      obtain q0 qs where q: "query_rep = q0 # qs"
        using lens(1) b by (cases query_rep) auto
      have q0: "length q0 = d" using query_rows q by simp
      have upt_b: "[0..<b] = 0 # [1..<b]" using b by (simp add: upt_conv_Cons)
      have upt_K: "[0..<K] = 0 # [1..<K]" using K by (simp add: upt_conv_Cons)
      define V where "V = map (\<lambda>i. map (\<lambda>j. take w (drop ((i * K + j) * w) flat)) [0..<K]) [0..<b]"
      have view: "view3 b K neg_rep = Inr V"
        using bk True by (simp add: view3_def Let_def flat_def [symmetric] w_def V_def)
      obtain vs Vs where V: "V = (take w flat # vs) # Vs" "length Vs = length qs"
        using lens(1) q by (simp add: V_def upt_b upt_K)
      have "length (take w flat) = w" using wle by simp
      then have "ew1 (*) q0 (take w flat) = Inl InvalidShape"
        using q0 dw d by (intro ew1_mismatch) simp_all
      then have "ew2 (*) [q0] (take w flat # vs) = Inl InvalidShape"
        by (rule ew2_first_row_fault)
      then have fault: "ew3 (*) (unsqueeze1 query_rep) V = Inl InvalidShape"
        unfolding q V(1) using V(2) by (intro ew3_first_row_fault) simp_all
      have "ew2 (*) query_rep pos_rep = Inr (map2 (map2 (*)) query_rep pos_rep)"
        using lens(1,2) rows_same_length [OF query_rows pos_rows] by (intro ew2_same) simp_all
      then show ?thesis
        by (simp add: RobertaForMerge_forward_def layout view fault)
    qed
  qed
qed

lemma listwise_loss_returns:
  assumes "length pos_scores = bsz" "length neg_scores = bsz" "0 < bsz"
  shows "\<exists>loss. listwise_loss bsz pos_scores neg_scores = Inr loss"
proof -
  let ?scores = "map2 (@) (unsqueeze1 pos_scores) neg_scores"
  have len: "length ?scores = bsz"
    using assms(1,2) by (simp add: unsqueeze1_def)
  have "cross_entropy_row row l = Inr (ln (\<Sum>x\<leftarrow>row. exp x) - row ! l)"
    if "(row, l) \<in> set (zip ?scores (replicate bsz 0))" for row l
  proof -
    from that have "l = 0" "row \<in> set ?scores"
      by (auto dest: set_zip_leftD set_zip_rightD)
    then have "l = 0" "row \<noteq> []"
      by (auto simp: unsqueeze1_def zip_map1)
    then show ?thesis by (simp add: cross_entropy_row_def)
  qed
  then have "collect (map2 cross_entropy_row ?scores (replicate bsz 0))
             = Inr (map2 (\<lambda>row l. ln (\<Sum>x\<leftarrow>row. exp x) - row ! l) ?scores (replicate bsz 0))"
    by (rule collect_map2_Inr)
  moreover have "map2 (\<lambda>row l. ln (\<Sum>x\<leftarrow>row. exp x) - row ! l) ?scores (replicate bsz 0) \<noteq> []"
    using len assms(3) by (auto simp del: map_is_Nil_conv simp add: map_is_Nil_conv zip_eq_Nil_iff)
  ultimately show ?thesis
    using assms(1,2) len
    by (simp add: listwise_loss_def cat_last_def CrossEntropyLoss_def Let_def mean_def
        unsqueeze1_def)
qed

text \<open>
  \<^verbatim>\<open>RobertaForFix.forward\<close> takes the in-batch branch, which multiplies the queries with all
  the remaining rows and never reshapes them.
\<close>

lemma fix_accepts_malformed:
  assumes rows: "\<forall>row\<in>set entity_rep. length row = d"
    and nonempty: "K + 2 \<le> length entity_rep"
    and ids: "length cur_page_ids = length entity_rep div (K + 2)"
      "length (concat neg_page_ids)
       = length entity_rep - 2 * (length entity_rep div (K + 2))"
  shows "\<exists>loss. RobertaForFix_forward fl (RobertaForFix_init K) entity_rep
                  cur_page_ids neg_page_ids = Inr loss"
proof -
  define b where "b = length entity_rep div (K + 2)"
  define query_rep where "query_rep = take b entity_rep"
  define pos_rep where "pos_rep = slice b (2 * b) entity_rep"
  define neg_rep where "neg_rep = drop (2 * b) entity_rep"
  have layout: "batch_layout K entity_rep = (b, query_rep, pos_rep, neg_rep)"
    by (simp add: batch_layout_def Let_def b_def query_rep_def pos_rep_def neg_rep_def)
  have b: "0 < b"
    using nonempty unfolding b_def by (simp add: div_greater_zero_iff)
  have lens: "length query_rep = b" "length pos_rep = b"
    using batch_layout_slices [where K = K and entity_rep = entity_rep]
    unfolding layout by simp_all
  have neg_len: "length neg_rep = length entity_rep - 2 * b"
    by (simp add: neg_rep_def)
  have query_rows: "\<forall>row\<in>set query_rep. length row = d"
    and pos_rows: "\<forall>row\<in>set pos_rep. length row = d"
    using layout_shapes [OF rows] by (simp_all add: query_rep_def pos_rep_def)
  have prod: "ew2 (*) query_rep pos_rep = Inr (map2 (map2 (*)) query_rep pos_rep)"
    using lens rows_same_length [OF query_rows pos_rows] by (intro ew2_same) simp_all
  have cur_len: "length cur_page_ids = length query_rep"
    using ids(1) lens(1) by (simp add: b_def)
  have ids_len: "length (concat neg_page_ids) = length neg_rep"
    using ids(2) neg_len by (simp add: b_def)
  define neg_scores where "neg_scores =
    map2 (\<lambda>q c. map2 (\<lambda>n m. fl ((\<Sum>(x, y)\<leftarrow>zip q n. x * y) - 10000 * (if c = m then 1 else 0)))
                    neg_rep (concat neg_page_ids)) query_rep cur_page_ids"
  have neg: "in_batch_neg_scores fl query_rep neg_rep cur_page_ids neg_page_ids = Inr neg_scores"
    unfolding neg_scores_def using cur_len ids_len by (rule in_batch_neg_scores_eq)
  have neg_rows: "length neg_scores = b"
    using cur_len lens(1) by (simp add: neg_scores_def)
  have "\<exists>loss. listwise_loss b (map sum_list (map2 (map2 (*)) query_rep pos_rep)) neg_scores
               = Inr loss"
    using lens neg_rows b by (intro listwise_loss_returns) simp_all
  then show ?thesis
    by (simp add: RobertaForFix_forward_def RobertaForFix_init_def layout prod neg)
qed

text \<open>
  Claim C5, amended. No layout check exists. For a batch of \<open>B \<ge> K + 2\<close> rows of dimension
  at least 2, with \<open>B\<close> not a multiple of \<open>K + 2\<close>: cutting the batch does not fail, \<open>bsz\<close> is
  \<open>B\<close> divided by \<open>K + 2\<close> rounded down, the queries are the first \<open>bsz\<close> rows, the positives
  the next \<open>bsz\<close> rows and the negatives all remaining rows, \<open>bsz * K\<close> of them plus the
  remainder of the division; \<^verbatim>\<open>RobertaForMerge.forward\<close> then aborts with a shape error of
  the tensor library; \<^verbatim>\<open>RobertaForFix.forward\<close>, given one page identifier per query and per
  remaining row, raises nothing and returns a loss.
\<close>

theorem malformed_batch_handling:
  assumes "\<forall>row\<in>set entity_rep. length row = d" and "2 \<le> d"
    and "length entity_rep mod (K + 2) \<noteq> 0"
    and "K + 2 \<le> length entity_rep"
    and "length cur_page_ids = length entity_rep div (K + 2)"
    and "length (concat neg_page_ids)
         = length entity_rep - 2 * (length entity_rep div (K + 2))"
  shows "(case batch_layout K entity_rep of (bsz, query_rep, pos_rep, neg_rep) \<Rightarrow>
            bsz = length entity_rep div (K + 2)
          \<and> query_rep @ pos_rep @ neg_rep = entity_rep
          \<and> length query_rep = bsz \<and> length pos_rep = bsz
          \<and> length neg_rep = bsz * K + length entity_rep mod (K + 2))
       \<and> RobertaForMerge_forward K entity_rep tmp = Inl InvalidShape
       \<and> (\<exists>loss. RobertaForFix_forward fl (RobertaForFix_init K) entity_rep
                    cur_page_ids neg_page_ids = Inr loss)"
  using batch_layout_slices [where K = K and entity_rep = entity_rep]
    merge_rejects_malformed [OF assms(1-4), of tmp]
    fix_accepts_malformed [OF assms(1,4,5,6), of fl]
  by blast

theorem malformed_batch_handling_witness:
  "batch_layout 1 [[1, 0], [1, 0], [0, 1], [1, 1 :: real]]
     = (1, [[1, 0]], [[1, 0]], [[0, 1], [1, 1]])
   \<and> RobertaForMerge_forward 1 [[1, 0], [1, 0], [0, 1], [1, 1]] [0] = Inl InvalidShape
   \<and> (\<exists>loss. RobertaForFix_forward float32 (RobertaForFix_init 1)
                [[1, 0], [1, 0], [0, 1], [1, 1]] [7] [[8, 9]] = Inr loss)"
  using malformed_batch_handling
    [of "[[1, 0], [1, 0], [0, 1], [1, 1]]" 2 1 "[7]" "[[8, 9]]" "[0]" float32]
  by (simp add: batch_layout_def slice_def)

lemmas fix_eval = RobertaForFix_forward_def RobertaForFix_init_def batch_layout_def slice_def
  in_batch_neg_scores_def Let_def ew2_def ew1_def bcast_def unsqueeze1_def
  matmul_transposed_def bnd_def listwise_loss_def cat_last_def CrossEntropyLoss_def
  cross_entropy_row_def mean_def

text \<open>
  Claim C5 as stated fails: a batch of 4 rows with \<open>K = 1\<close> is not \<open>bsz * (K + 2)\<close> rows for
  any \<open>bsz\<close>, and \<^verbatim>\<open>RobertaForFix.forward\<close> returns a loss for it, the two surplus rows
  scored as negatives.
\<close>

theorem malformed_batch_counterexample:
  "length [[1, 0], [1, 0], [0, 1], [1, 1 :: real]] mod (1 + 2) = 1
   \<and> RobertaForFix_forward float32 (RobertaForFix_init 1)
         [[1, 0], [1, 0], [0, 1], [1, 1]] [7] [[8, 9]]
       = Inr (ln (exp 1 + exp 0 + exp 1) - 1)"
  by (simp add: fix_eval float32_values)

subsection \<open>\<^verbatim>\<open>RobertaForTogether\<close>: the in-batch margin loss and the detach flag\<close>

lemma translational_score_p1:
  "gamma - torch_norm 1 (map2 (-) q n) = gamma - (\<Sum>(x, y)\<leftarrow>zip q n. \<bar>x - y\<bar>)"
  by (simp add: torch_norm_def comp_def case_prod_unfold)

lemma sum_list_divide: "sum_list (map (\<lambda>x. x / v) xs) = sum_list xs / (v::real)"
  by (induction xs) (simp_all add: add_divide_distrib)

lemma masked_row_sum:
  "length ids = length N \<Longrightarrow>
   sum_list (map2 (*) (map (\<lambda>n. logsigmoid (- sc n)) N)
                      (map (\<lambda>m. if c \<noteq> m then 1 else 0) ids))
   = (\<Sum>s\<leftarrow>concat (map (\<lambda>(m, n). if c \<noteq> m then [sc n] else []) (zip ids N)).
        ln (sigmoid (- s)))"
  by (induction ids N rule: list_induct2) (simp_all add: logsigmoid_def)

lemma masked_row_count:
  "length ids = length N \<Longrightarrow>
   sum_list (map (\<lambda>m. if c \<noteq> m then 1 else 0) ids)
   = real (length (concat (map (\<lambda>(m, n). if c \<noteq> m then [sc n] else []) (zip ids N))))"
  by (induction ids N rule: list_induct2) simp_all

lemma masked_matrix_sum:
  assumes "length ids = length N"
  shows "length cur = length Q \<Longrightarrow>
   sum_list (concat (map2 (map2 (*))
      (map (\<lambda>q. map (\<lambda>n. logsigmoid (- (gamma - (\<Sum>(x, y)\<leftarrow>zip q n. \<bar>x - y\<bar>)))) N) Q)
      (map (\<lambda>c. map (\<lambda>m. if c \<noteq> m then 1 else 0) ids) cur)))
   = (\<Sum>s\<leftarrow>spec_non_colliding_scores gamma (zip cur Q) (zip ids N). ln (sigmoid (- s)))"
proof (induction cur Q rule: list_induct2)
  case Nil
  then show ?case by (simp add: spec_non_colliding_scores_def)
next
  case (Cons c cur q Q)
  have "spec_non_colliding_scores gamma (zip (c # cur) (q # Q)) (zip ids N)
        = concat (map (\<lambda>(m, n). if c \<noteq> m then [gamma - (\<Sum>(x, y)\<leftarrow>zip q n. \<bar>x - y\<bar>)] else [])
                   (zip ids N))
          @ spec_non_colliding_scores gamma (zip cur Q) (zip ids N)"
    by (simp add: spec_non_colliding_scores_def)
  then show ?case
    using Cons.IH
      masked_row_sum [OF assms, of "\<lambda>n. gamma - (\<Sum>(x, y)\<leftarrow>zip q n. \<bar>x - y\<bar>)" c]
    by simp
qed

lemma masked_matrix_count:
  assumes "length ids = length N"
  shows "length cur = length Q \<Longrightarrow>
   sum_list (concat (map (\<lambda>c. map (\<lambda>m. if c \<noteq> m then 1 else 0) ids) cur))
   = real (length (spec_non_colliding_scores gamma (zip cur Q) (zip ids N)))"
proof (induction cur Q rule: list_induct2)
  case Nil
  then show ?case by (simp add: spec_non_colliding_scores_def)
next
  case (Cons c cur q Q)
  have "spec_non_colliding_scores gamma (zip (c # cur) (q # Q)) (zip ids N)
        = concat (map (\<lambda>(m, n). if c \<noteq> m then [gamma - (\<Sum>(x, y)\<leftarrow>zip q n. \<bar>x - y\<bar>)] else [])
                   (zip ids N))
          @ spec_non_colliding_scores gamma (zip cur Q) (zip ids N)"
    by (simp add: spec_non_colliding_scores_def)
  then show ?case
    using Cons.IH
      masked_row_count [OF assms, of c "\<lambda>n. gamma - (\<Sum>(x, y)\<leftarrow>zip q n. \<bar>x - y\<bar>)"]
    by simp
qed

lemma together_init_margin_in_batch:
  "together_ent_loss fl (RobertaForTogether_init K dt) bsz query_rep pos_rep neg_rep
     cur_page_ids neg_page_ids
   = bnd (margin_in_batch_negative_loss 5 1 K bsz query_rep neg_rep cur_page_ids neg_page_ids)
       (\<lambda>negative_sample_loss.
          bnd (ew2 (-) query_rep pos_rep) (\<lambda>pos_scores.
          bnd (mean (map logsigmoid (map (\<lambda>v. 5 - torch_norm 1 v) pos_scores))) (\<lambda>m.
          Inr ((- m + negative_sample_loss) / 2))))"
  by (simp add: together_ent_loss_def RobertaForTogether_init_def Let_def del: One_nat_def)

text \<open>
  Claim C9. In the margin branch with in-batch negatives (\<^verbatim>\<open>self.p = 1\<close>, the branch
  that \<^verbatim>\<open>__init__\<close> selects), for \<open>bsz * K \<ge> 1\<close> pooled negatives, one page identifier per
  query and per negative, and at least one pair whose identifiers differ: the negative term
  is minus the sum of \<open>log \<sigma>(- score)\<close> over the pairs whose identifiers differ, divided by
  the number of those pairs in the whole batch. A pair whose identifiers coincide adds
  nothing to the sum, and the divisor is one count for the batch, not one per query.
\<close>

theorem in_batch_margin_negative_term:
  assumes ids: "length cur_page_ids = length query_rep"
      "length (concat neg_page_ids) = length neg_rep"
    and pool: "length neg_rep = bsz * K" "0 < bsz * K"
    and dims: "\<forall>q\<in>set query_rep. length q = d" "\<forall>n\<in>set neg_rep. length n = d"
    and some: "spec_non_colliding_scores gamma (zip cur_page_ids query_rep)
                 (zip (concat neg_page_ids) neg_rep) \<noteq> []"
  shows "margin_in_batch_negative_loss gamma 1 K bsz query_rep neg_rep cur_page_ids neg_page_ids
         = Inr (spec_in_batch_negative_term gamma (zip cur_page_ids query_rep)
                  (zip (concat neg_page_ids) neg_rep))"
proof -
  let ?ids = "concat neg_page_ids"
  let ?mask = "map (\<lambda>c. map (\<lambda>m. if c \<noteq> m then 1 else (0::real)) ?ids) cur_page_ids"
  let ?ls = "map (\<lambda>q. map (\<lambda>n. logsigmoid (- (gamma - (\<Sum>(x, y)\<leftarrow>zip q n. \<bar>x - y\<bar>)))) neg_rep)
               query_rep"
  let ?nc = "spec_non_colliding_scores gamma (zip cur_page_ids query_rep) (zip ?ids neg_rep)"
  have mask: "ew2 (\<lambda>c n. if c \<noteq> n then 1 else (0::real)) (unsqueeze1 cur_page_ids) [?ids]
              = Inr ?mask"
    by (rule ew2_outer)
  have view_neg: "view (bsz * K) neg_rep = Inr neg_rep"
    using view_rect [of neg_rep d] pool dims(2) by simp
  have diff: "ew3 (-) (unsqueeze1 query_rep) [neg_rep]
              = Inr (map (\<lambda>q. map (\<lambda>n. map2 (-) q n) neg_rep) query_rep)"
    using dims by (intro ew3_outer) simp
  have ls: "map (map (\<lambda>s. logsigmoid (- s)))
              (map (map (\<lambda>v. gamma - torch_norm 1 v))
                 (map (\<lambda>q. map (\<lambda>n. map2 (-) q n) neg_rep) query_rep)) = ?ls"
    by (simp add: comp_def translational_score_p1 del: One_nat_def)
  have prod: "ew2 (*) ?ls ?mask = Inr (map2 (map2 (*)) ?ls ?mask)"
    using ids by (intro ew2_same) (auto simp: set_zip)
  have valid: "sum_list (concat ?mask) = real (length ?nc)"
    using ids by (intro masked_matrix_count) simp_all
  have total: "sum_list (concat (map2 (map2 (*)) ?ls ?mask))
               = (\<Sum>s\<leftarrow>?nc. ln (sigmoid (- s)))"
    using ids by (intro masked_matrix_sum) simp_all
  have pos: "real (length ?nc) \<noteq> 0"
    using some by simp
  have "margin_in_batch_negative_loss gamma 1 K bsz query_rep neg_rep cur_page_ids neg_page_ids
        = Inr (- sum_list (concat (map (map (\<lambda>x. x / real (length ?nc)))
                                    (map2 (map2 (*)) ?ls ?mask))))"
    unfolding margin_in_batch_negative_loss_def Let_def
    by (simp only: mask view_neg diff ls prod valid pos bnd_Inr if_False)
  also have "sum_list (concat (map (map (\<lambda>x. x / real (length ?nc)))
                                    (map2 (map2 (*)) ?ls ?mask)))
             = (\<Sum>s\<leftarrow>?nc. ln (sigmoid (- s))) / real (length ?nc)"
    by (simp only: map_concat [symmetric] sum_list_divide total)
  finally show ?thesis
    by (simp add: spec_in_batch_negative_term_def)
qed

theorem in_batch_margin_negative_term_witness:
  "margin_in_batch_negative_loss 5 1 1 2 [[0], [0]] [[1], [2]] [7, 8] [[7], [9]]
   = Inr (- (ln (sigmoid (- 3)) + (ln (sigmoid (- 4)) + ln (sigmoid (- 3)))) / 3)"
  using in_batch_margin_negative_term
    [of "[7, 8]" "[[0], [0]]" "[[7], [9]]" "[[1], [2]]" 2 1 1 5]
  by (simp add: spec_in_batch_negative_term_def spec_non_colliding_scores_def)

lemma together_reps_requires_grad:
  "(case together_reps self bsz entity_rep of (query_rep, pos_rep, neg_rep) \<Rightarrow>
      requires_grad query_rep = requires_grad entity_rep
    \<and> requires_grad pos_rep = False \<and> requires_grad neg_rep = False)"
  by (simp add: together_reps_def Let_def op1_def detach_def)

text \<open>
  Claim C8 does not hold of \<^verbatim>\<open>RobertaForTogether.forward\<close>: with the detach flag unset and
  an \<open>entity_rep\<close> that carries a gradient, the positive and the negative rows are cut off
  from the graph all the same, by the two \<^verbatim>\<open>.detach()\<close> calls that precede the test of
  \<^verbatim>\<open>self.is_detach\<close>; only the query rows keep the gradient.
\<close>

theorem together_detaches_whatever_the_flag:
  "together_reps (RobertaForTogether_init 1 False) 1 \<lparr>data = [[1], [2], [3]], requires_grad = True\<rparr>
   = (\<lparr>data = [[1]], requires_grad = True\<rparr>,
      \<lparr>data = [[2]], requires_grad = False\<rparr>,
      \<lparr>data = [[3]], requires_grad = False\<rparr>)"
  by (simp add: together_reps_def RobertaForTogether_init_def Let_def op1_def detach_def slice_def)

subsection \<open>\<^verbatim>\<open>RobertaForTransE\<close>: the self-adversarial margin loss\<close>

lemma map2_same_list: "map2 f (map g xs) (map k xs) = map (\<lambda>x. f (g x) (k x)) xs"
  by (induction xs) simp_all

lemma sum_list_uminus: "(\<Sum>x\<leftarrow>xs. - f x) = - (\<Sum>x\<leftarrow>xs. f x :: real)"
  by (induction xs) simp_all

lemma weights_row:
  "map dual_detach (dual_softmax_row (map (\<lambda>x. dual_mul x (dual_const 1)) row))
   = map (\<lambda>n. (exp (fst n) / (\<Sum>m\<leftarrow>row. exp (fst m)), 0)) row"
  by (simp add: dual_softmax_row_def Let_def dual_detach_def dual_div_def dual_exp_def
      dual_sum_def dual_mul_def dual_const_def comp_def)

lemma self_adversarial_weights_eq:
  "self_adversarial_weights NS
   = map (\<lambda>row. map (\<lambda>n. (exp (fst n) / (\<Sum>m\<leftarrow>row. exp (fst m)), 0)) row) NS"
  unfolding self_adversarial_weights_def detach_tensor_def dual_softmax_def
  by (simp add: comp_def weights_row)

lemma weights_times_logsigmoid:
  "ew2 dual_mul (self_adversarial_weights NS)
     (map (map (\<lambda>s. dual_logsigmoid (dual_neg s))) NS)
   = Inr (map (\<lambda>row. map (\<lambda>n.
            ((exp (fst n) / (\<Sum>m\<leftarrow>row. exp (fst m))) * ln (sigmoid (- fst n)),
             (exp (fst n) / (\<Sum>m\<leftarrow>row. exp (fst m))) * (- (sigmoid (fst n) * snd n)))) row) NS)"
proof -
  let ?W = "map (\<lambda>row. map (\<lambda>n. (exp (fst n) / (\<Sum>m\<leftarrow>row. exp (fst m)), 0 :: real)) row) NS"
  let ?L = "map (map (\<lambda>s. dual_logsigmoid (dual_neg s))) NS"
  have "ew2 dual_mul ?W ?L = Inr (map2 (map2 dual_mul) ?W ?L)"
    by (rule ew2_same) (auto simp: set_zip)
  also have "map2 (map2 dual_mul) ?W ?L
    = map (\<lambda>row. map (\<lambda>n.
            ((exp (fst n) / (\<Sum>m\<leftarrow>row. exp (fst m))) * ln (sigmoid (- fst n)),
             (exp (fst n) / (\<Sum>m\<leftarrow>row. exp (fst m))) * (- (sigmoid (fst n) * snd n)))) row) NS"
    by (simp add: map2_same_list dual_mul_def dual_logsigmoid_def dual_neg_def logsigmoid_def)
  finally show ?thesis
    by (simp only: self_adversarial_weights_eq)
qed

lemma dual_mean_nonempty:
  "xs \<noteq> [] \<Longrightarrow> dual_mean xs
     = Inr ((\<Sum>x\<leftarrow>xs. fst x) / real (length xs), (\<Sum>x\<leftarrow>xs. snd x) / real (length xs))"
  by (simp add: dual_mean_def dual_div_def dual_sum_def dual_const_def power2_eq_square)

lemma transe_loss_of_differences:
  assumes diff: "transe_differences h t relation_idx (Some outputs) neg_e1_idxs neg_e2_idxs
                 = Inr (p_score, n_score)"
    and nonempty: "p_score \<noteq> []" "n_score \<noteq> []"
  shows "RobertaForTransE_forward gamma h t relation_idx (Some outputs)
           neg_e1_idxs neg_e2_idxs None
         = Inr (Loss
             (spec_margin_loss
                (map fst (map (\<lambda>v. dual_sub (dual_const gamma) (dual_norm1 v)) p_score))
                (map (map fst)
                   (map (map (\<lambda>v. dual_sub (dual_const gamma) (dual_norm1 v))) n_score)),
              spec_margin_loss_derivative
                (map (\<lambda>v. dual_sub (dual_const gamma) (dual_norm1 v)) p_score)
                (map (map (\<lambda>v. dual_sub (dual_const gamma) (dual_norm1 v))) n_score)))"
proof -
  define PS where "PS = map (\<lambda>v. dual_sub (dual_const gamma) (dual_norm1 v)) p_score"
  define NS where "NS = map (map (\<lambda>v. dual_sub (dual_const gamma) (dual_norm1 v))) n_score"
  define W where "W = map (\<lambda>row. map (\<lambda>n.
            ((exp (fst n) / (\<Sum>m\<leftarrow>row. exp (fst m))) * ln (sigmoid (- fst n)),
             (exp (fst n) / (\<Sum>m\<leftarrow>row. exp (fst m))) * (- (sigmoid (fst n) * snd n)))) row) NS"
  have prod: "ew2 dual_mul (self_adversarial_weights NS)
     (map (map (\<lambda>s. dual_logsigmoid (dual_neg s))) NS) = Inr W"
    unfolding W_def by (rule weights_times_logsigmoid)
  have ne: "map dual_logsigmoid PS \<noteq> []" "map dual_sum W \<noteq> []"
    using nonempty by (simp_all add: PS_def NS_def W_def)
  have "RobertaForTransE_forward gamma h t relation_idx (Some outputs)
           neg_e1_idxs neg_e2_idxs None
        = Inr (Loss (dual_div (dual_add
            (dual_neg ((\<Sum>x\<leftarrow>map dual_logsigmoid PS. fst x) / real (length (map dual_logsigmoid PS)),
                       (\<Sum>x\<leftarrow>map dual_logsigmoid PS. snd x) / real (length (map dual_logsigmoid PS))))
            (dual_neg ((\<Sum>x\<leftarrow>map dual_sum W. fst x) / real (length (map dual_sum W)),
                       (\<Sum>x\<leftarrow>map dual_sum W. snd x) / real (length (map dual_sum W)))))
            (dual_const 2)))"
    unfolding RobertaForTransE_forward_def diff bnd_Inr prod.case Let_def
      PS_def [symmetric] NS_def [symmetric] prod
    by (simp add: dual_mean_nonempty [OF ne(1)] dual_mean_nonempty [OF ne(2)])
  also have "dual_div (dual_add
            (dual_neg ((\<Sum>x\<leftarrow>map dual_logsigmoid PS. fst x) / real (length (map dual_logsigmoid PS)),
                       (\<Sum>x\<leftarrow>map dual_logsigmoid PS. snd x) / real (length (map dual_logsigmoid PS))))
            (dual_neg ((\<Sum>x\<leftarrow>map dual_sum W. fst x) / real (length (map dual_sum W)),
                       (\<Sum>x\<leftarrow>map dual_sum W. snd x) / real (length (map dual_sum W)))))
            (dual_const 2)
      = (spec_margin_loss (map fst PS) (map (map fst) NS), spec_margin_loss_derivative PS NS)"
    by (simp add: dual_div_def dual_add_def dual_neg_def dual_const_def dual_logsigmoid_def
        dual_sum_def W_def spec_margin_loss_def spec_margin_loss_derivative_def comp_def
        logsigmoid_def sum_list_uminus power2_eq_square add_divide_distrib mult.commute)
  finally show ?thesis
    unfolding PS_def NS_def .
qed

lemma rows_map2_length:
  assumes "\<forall>v\<in>set A. length v = d" "\<forall>v\<in>set B. length v = (d::nat)"
  shows "\<forall>v\<in>set (map2 (map2 f) A B). length v = d"
proof
  fix v assume "v \<in> set (map2 (map2 f) A B)"
  then obtain a b where ab: "(a, b) \<in> set (zip A B)" and v: "v = map2 f a b"
    by auto
  from ab have "a \<in> set A" "b \<in> set B"
    by (auto dest: set_zip_leftD set_zip_rightD)
  with assms v show "length v = d" by simp
qed

lemma transe_differences_tail:
  assumes "length r = length h" "length t = length h" "length neg_t = length h"
    and "\<forall>v\<in>set h. length v = d" "\<forall>v\<in>set r. length v = d"
      "\<forall>v\<in>set t. length v = d" "\<forall>ns\<in>set neg_t. \<forall>n\<in>set ns. length n = d"
  shows "transe_differences h t (Some r) input_ids None (Some neg_t)
     = Inr (map2 (map2 dual_sub) (map2 (map2 dual_add) h r) t,
            map2 (\<lambda>v ns. map (\<lambda>n. map2 dual_sub v n) ns) (map2 (map2 dual_add) h r) neg_t)"
proof -
  let ?hr = "map2 (map2 dual_add) h r"
  have hr: "ew2 dual_add h r = Inr ?hr"
    using assms(1) rows_same_length [OF assms(4,5)] by (intro ew2_same) simp_all
  have hr_rows: "\<forall>v\<in>set ?hr. length v = d"
    using assms(4,5) by (rule rows_map2_length)
  have p: "ew2 dual_sub ?hr t = Inr (map2 (map2 dual_sub) ?hr t)"
    using assms(1,2) rows_same_length [OF hr_rows assms(6)] by (intro ew2_same) simp_all
  have n: "ew3 dual_sub (unsqueeze1 ?hr) neg_t
           = Inr (map2 (\<lambda>v ns. map (\<lambda>n. map2 dual_sub v n) ns) ?hr neg_t)"
  proof (rule ew3_unsqueezed_left)
    show "length ?hr = length neg_t" using assms(1,3) by simp
    fix q ns n assume "(q, ns) \<in> set (zip ?hr neg_t)" "n \<in> set ns"
    then have "q \<in> set ?hr" "ns \<in> set neg_t"
      by (auto dest: set_zip_leftD set_zip_rightD)
    then have "length q = d" "length n = d"
      using hr_rows assms(7) \<open>n \<in> set ns\<close> by blast+
    then show "length n = length q" by simp
  qed
  show ?thesis
    by (simp add: transe_differences_def hr p n)
qed

lemma transe_differences_head:
  assumes "length r = length h" "length t = length h" "length neg_h = length h"
    and "\<forall>v\<in>set h. length v = d" "\<forall>v\<in>set r. length v = d"
      "\<forall>v\<in>set t. length v = d" "\<forall>ns\<in>set neg_h. \<forall>n\<in>set ns. length n = d"
  shows "transe_differences h t (Some r) input_ids (Some neg_h) neg_e2_idxs
     = Inr (map2 (map2 dual_sub) (map2 (map2 dual_add) h r) t,
            map2 (\<lambda>ns v. map (\<lambda>n. map2 dual_add n v) ns) neg_h (map2 (map2 dual_sub) r t))"
proof -
  let ?hr = "map2 (map2 dual_add) h r"
  let ?rt = "map2 (map2 dual_sub) r t"
  have hr: "ew2 dual_add h r = Inr ?hr"
    using assms(1) rows_same_length [OF assms(4,5)] by (intro ew2_same) simp_all
  have hr_rows: "\<forall>v\<in>set ?hr. length v = d"
    using assms(4,5) by (rule rows_map2_length)
  have p: "ew2 dual_sub ?hr t = Inr (map2 (map2 dual_sub) ?hr t)"
    using assms(1,2) rows_same_length [OF hr_rows assms(6)] by (intro ew2_same) simp_all
  have rt: "ew2 dual_sub r t = Inr ?rt"
    using assms(1,2) rows_same_length [OF assms(5,6)] by (intro ew2_same) simp_all
  have rt_rows: "\<forall>v\<in>set ?rt. length v = d"
    using assms(5,6) by (rule rows_map2_length)
  have n: "ew3 dual_add neg_h (unsqueeze1 ?rt)
           = Inr (map2 (\<lambda>ns v. map (\<lambda>n. map2 dual_add n v) ns) neg_h ?rt)"
  proof (rule ew3_unsqueezed_right)
    show "length ?rt = length neg_h" using assms(1,2,3) by simp
    fix q ns n assume "(ns, q) \<in> set (zip neg_h ?rt)" "n \<in> set ns"
    then have "q \<in> set ?rt" "ns \<in> set neg_h"
      by (auto dest: set_zip_leftD set_zip_rightD)
    then have "length q = d" "length n = d"
      using rt_rows assms(7) \<open>n \<in> set ns\<close> by blast+
    then show "length n = length q" by simp
  qed
  show ?thesis
    by (simp add: transe_differences_def hr p rt n)
qed

lemma translation_score_tail:
  "dual_sub (dual_const gamma) (dual_norm1 (map2 dual_sub (map2 dual_add a r) b))
   = spec_translational_score_dual gamma a r b"
proof -
  have "dual_norm1 (map2 dual_sub (map2 dual_add a r) b)
        = (\<Sum>((x, y), z)\<leftarrow>zip (zip a r) b. \<bar>fst x + fst y - fst z\<bar>,
           \<Sum>((x, y), z)\<leftarrow>zip (zip a r) b. sgn (fst x + fst y - fst z) * (snd x + snd y - snd z))"
  proof (induction a arbitrary: r b)
    case Nil
    then show ?case by (simp add: dual_norm1_def dual_sum_def)
  next
    case (Cons x a)
    then show ?case
      by (cases r; cases b)
        (simp_all add: dual_norm1_def dual_sum_def dual_abs_def dual_sub_def dual_add_def)
  qed
  moreover have "spec_translational_score gamma (map fst a) (map fst r) (map fst b)
        = gamma - (\<Sum>((x, y), z)\<leftarrow>zip (zip a r) b. \<bar>fst x + fst y - fst z\<bar>)"
  proof -
    have "(\<Sum>((x, y), z)\<leftarrow>zip (zip (map fst a) (map fst r)) (map fst b). \<bar>x + y - z\<bar>)
          = (\<Sum>((x, y), z)\<leftarrow>zip (zip a r) b. \<bar>fst x + fst y - fst z\<bar>)"
    proof (induction a arbitrary: r b)
      case Nil
      then show ?case by simp
    next
      case (Cons x a)
      then show ?case by (cases r; cases b) simp_all
    qed
    then show ?thesis by (simp only: spec_translational_score_def)
  qed
  ultimately show ?thesis
    by (simp add: spec_translational_score_dual_def dual_sub_def dual_const_def)
qed

lemma translation_score_head:
  "dual_sub (dual_const gamma) (dual_norm1 (map2 dual_add n (map2 dual_sub r b)))
   = spec_translational_score_dual gamma n r b"
proof -
  have "dual_norm1 (map2 dual_add n (map2 dual_sub r b))
        = dual_norm1 (map2 dual_sub (map2 dual_add n r) b)"
  proof (induction n arbitrary: r b)
    case Nil
    then show ?case by simp
  next
    case (Cons x n)
    show ?case
    proof (cases r)
      case Nil
      then show ?thesis by simp
    next
      case r: (Cons y r')
      show ?thesis
      proof (cases b)
        case Nil
        then show ?thesis using r by simp
      next
        case (Cons z b')
        have "dual_abs (dual_add x (dual_sub y z)) = dual_abs (dual_sub (dual_add x y) z)"
          by (simp add: dual_abs_def dual_add_def dual_sub_def algebra_simps)
        then show ?thesis
          using r Cons Cons.IH [of r' b']
          by (simp add: dual_norm1_def dual_sum_def)
      qed
    qed
  qed
  then show ?thesis by (simp only: translation_score_tail)
qed

lemma tail_row_spec:
  "map (\<lambda>v. dual_sub (dual_const gamma) (dual_norm1 v))
     (map (\<lambda>n. map2 dual_sub (map2 dual_add a r) n) ns)
   = map (\<lambda>n. spec_translational_score_dual gamma a r n) ns"
  by (induction ns) (simp_all only: list.map translation_score_tail)

lemma head_row_spec:
  "map (\<lambda>v. dual_sub (dual_const gamma) (dual_norm1 v))
     (map (\<lambda>n. map2 dual_add n (map2 dual_sub r b)) ns)
   = map (\<lambda>n. spec_translational_score_dual gamma n r b) ns"
  by (induction ns) (simp_all only: list.map translation_score_head)

lemma positive_scores_spec:
  "length H = length R \<Longrightarrow> length R = length T \<Longrightarrow>
   map (\<lambda>v. dual_sub (dual_const gamma) (dual_norm1 v))
     (map2 (map2 dual_sub) (map2 (map2 dual_add) H R) T)
   = map (\<lambda>((a, r), b). spec_translational_score_dual gamma a r b) (zip (zip H R) T)"
proof (induction H R T rule: list_induct3)
  case Nil
  then show ?case by simp
next
  case (Cons h H r R t T)
  then show ?case
    by (simp only: zip_Cons_Cons list.map prod.case translation_score_tail)
qed

lemma tail_scores_spec:
  "length H = length R \<Longrightarrow> length R = length N \<Longrightarrow>
   map (map (\<lambda>v. dual_sub (dual_const gamma) (dual_norm1 v)))
     (map2 (\<lambda>v ns. map (\<lambda>n. map2 dual_sub v n) ns) (map2 (map2 dual_add) H R) N)
   = map (\<lambda>((a, r), ns). map (\<lambda>n. spec_translational_score_dual gamma a r n) ns)
       (zip (zip H R) N)"
proof (induction H R N rule: list_induct3)
  case Nil
  then show ?case by simp
next
  case (Cons h H r R ns N)
  then show ?case
    by (simp only: zip_Cons_Cons list.map prod.case tail_row_spec)
qed

lemma head_scores_spec:
  "length R = length T \<Longrightarrow> length T = length N \<Longrightarrow>
   map (map (\<lambda>v. dual_sub (dual_const gamma) (dual_norm1 v)))
     (map2 (\<lambda>ns v. map (\<lambda>n. map2 dual_add n v) ns) N (map2 (map2 dual_sub) R T))
   = map (\<lambda>((r, b), ns). map (\<lambda>n. spec_translational_score_dual gamma n r b) ns)
       (zip (zip R T) N)"
proof (induction R T N rule: list_induct3)
  case Nil
  then show ?case by simp
next
  case (Cons r R t T ns N)
  then show ?case
    by (simp only: zip_Cons_Cons list.map prod.case head_row_spec)
qed

lemma transe_forward_encoded:
  "RobertaForTransE_forward gamma h t None (Some outputs) neg_e1_idxs (Some neg_t) None
   = RobertaForTransE_forward gamma h t
       (Some (map (map (dual_mul (dual_const bert_ceof))) outputs)) (Some outputs)
       None (Some neg_t) None"
  by (simp add: RobertaForTransE_forward_def transe_differences_def Let_def)

lemma dual_mul_const: "dual_mul (dual_const c) x = (c * fst x, c * snd x)"
  by (simp add: dual_mul_def dual_const_def)

lemma transe_tail_loss:
  assumes "h \<noteq> []"
    and "length r = length h" "length t = length h" "length neg = length h"
    and "\<forall>v\<in>set h. length v = d" "\<forall>v\<in>set r. length v = d"
      "\<forall>v\<in>set t. length v = d" "\<forall>ns\<in>set neg. \<forall>n\<in>set ns. length n = d"
  shows "RobertaForTransE_forward gamma h t (Some r) (Some any_outputs) None (Some neg) None
     = Inr (Loss
         (spec_margin_loss
            (map fst (map (\<lambda>((a, r), b). spec_translational_score_dual gamma a r b)
               (zip (zip h r) t)))
            (map (map fst)
               (map (\<lambda>((a, r), ns). map (\<lambda>n. spec_translational_score_dual gamma a r n) ns)
                  (zip (zip h r) neg))),
          spec_margin_loss_derivative
            (map (\<lambda>((a, r), b). spec_translational_score_dual gamma a r b) (zip (zip h r) t))
            (map (\<lambda>((a, r), ns). map (\<lambda>n. spec_translational_score_dual gamma a r n) ns)
               (zip (zip h r) neg))))"
proof -
  note diff = transe_differences_tail [OF assms(2-8), of "Some any_outputs"]
  have ne: "map2 (map2 dual_sub) (map2 (map2 dual_add) h r) t \<noteq> []"
    "map2 (\<lambda>v ns. map (\<lambda>n. map2 dual_sub v n) ns) (map2 (map2 dual_add) h r) neg \<noteq> []"
    using assms(1-4) by auto
  show ?thesis
    using transe_loss_of_differences [OF diff ne, of gamma]
    unfolding
      positive_scores_spec [OF assms(2) [symmetric] trans [OF assms(2) assms(3) [symmetric]]]
      tail_scores_spec [OF assms(2) [symmetric] trans [OF assms(2) assms(4) [symmetric]]] .
qed

lemma transe_head_loss:
  assumes "h \<noteq> []"
    and "length r = length h" "length t = length h" "length neg = length h"
    and "\<forall>v\<in>set h. length v = d" "\<forall>v\<in>set r. length v = d"
      "\<forall>v\<in>set t. length v = d" "\<forall>ns\<in>set neg. \<forall>n\<in>set ns. length n = d"
  shows "RobertaForTransE_forward gamma h t (Some r) (Some any_outputs) (Some neg) neg_e2_idxs None
     = Inr (Loss
         (spec_margin_loss
            (map fst (map (\<lambda>((a, r), b). spec_translational_score_dual gamma a r b)
               (zip (zip h r) t)))
            (map (map fst)
               (map (\<lambda>((r, b), ns). map (\<lambda>n. spec_translational_score_dual gamma n r b) ns)
                  (zip (zip r t) neg))),
          spec_margin_loss_derivative
            (map (\<lambda>((a, r), b). spec_translational_score_dual gamma a r b) (zip (zip h r) t))
            (map (\<lambda>((r, b), ns). map (\<lambda>n. spec_translational_score_dual gamma n r b) ns)
               (zip (zip r t) neg))))"
proof -
  note diff = transe_differences_head [OF assms(2-8), of "Some any_outputs" neg_e2_idxs]
  have ne: "map2 (map2 dual_sub) (map2 (map2 dual_add) h r) t \<noteq> []"
    "map2 (\<lambda>ns v. map (\<lambda>n. map2 dual_add n v) ns) neg (map2 (map2 dual_sub) r t) \<noteq> []"
    using assms(1-4) by auto
  show ?thesis
    using transe_loss_of_differences [OF diff ne, of gamma]
    unfolding
      positive_scores_spec [OF assms(2) [symmetric] trans [OF assms(2) assms(3) [symmetric]]]
      head_scores_spec [OF trans [OF assms(2) assms(3) [symmetric]]
                           trans [OF assms(3) assms(4) [symmetric]]] .
qed

text \<open>
  Claim C2. For a batch of \<open>bsz \<ge> 1\<close> examples whose head, relation, tail and negative rows
  all have one dimension, without subsampling weight and on the path that returns a loss
  (\<open>input_ids\<close> given), the returned loss has the value
  \<open>(mean\<^sub>i (- log \<sigma>(pos\<^sub>i)) + mean\<^sub>i (- \<Sum>\<^sub>j w\<^sub>i\<^sub>j log \<sigma>(- neg\<^sub>i\<^sub>j))) / 2\<close> with
  \<open>pos\<^sub>i = \<gamma> - \<parallel>h\<^sub>i + r\<^sub>i - t\<^sub>i\<parallel>\<^sub>1\<close>, the negative scores by the same formula with the negative
  tail (or the negative head) in place of the tail (or the head), and \<open>w\<^sub>i\<close> the softmax of
  row \<open>i\<close> of the negative scores; and the derivative of the returned loss, along any
  direction of the embeddings, is the derivative of that expression with the weights held
  constant: \<open>(mean\<^sub>i (- \<sigma>(- pos\<^sub>i) pos\<^sub>i') + mean\<^sub>i (\<Sum>\<^sub>j w\<^sub>i\<^sub>j \<sigma>(neg\<^sub>i\<^sub>j) neg\<^sub>i\<^sub>j')) / 2\<close>, with no term for
  the derivative of \<open>w\<^sub>i\<^sub>j\<close>. This holds with negative tails, with negative heads, and with the
  relation taken from the encoder (scaled by \<open>bert_ceof\<close>).
\<close>

theorem transe_margin_loss:
  assumes "h \<noteq> []"
    and "length r = length h" "length t = length h" "length neg = length h"
      "length outputs = length h"
    and "\<forall>v\<in>set h. length v = d" "\<forall>v\<in>set r. length v = d"
      "\<forall>v\<in>set t. length v = d" "\<forall>ns\<in>set neg. \<forall>n\<in>set ns. length n = d"
      "\<forall>v\<in>set outputs. length v = d"
  shows
    "RobertaForTransE_forward gamma h t (Some r) (Some any_outputs) None (Some neg) None
     = Inr (Loss
         (spec_margin_loss
            (map fst (map (\<lambda>((a, r), b). spec_translational_score_dual gamma a r b)
               (zip (zip h r) t)))
            (map (map fst)
               (map (\<lambda>((a, r), ns). map (\<lambda>n. spec_translational_score_dual gamma a r n) ns)
                  (zip (zip h r) neg))),
          spec_margin_loss_derivative
            (map (\<lambda>((a, r), b). spec_translational_score_dual gamma a r b) (zip (zip h r) t))
            (map (\<lambda>((a, r), ns). map (\<lambda>n. spec_translational_score_dual gamma a r n) ns)
               (zip (zip h r) neg))))
   \<and> RobertaForTransE_forward gamma h t (Some r) (Some any_outputs) (Some neg) neg_e2_idxs None
     = Inr (Loss
         (spec_margin_loss
            (map fst (map (\<lambda>((a, r), b). spec_translational_score_dual gamma a r b)
               (zip (zip h r) t)))
            (map (map fst)
               (map (\<lambda>((r, b), ns). map (\<lambda>n. spec_translational_score_dual gamma n r b) ns)
                  (zip (zip r t) neg))),
          spec_margin_loss_derivative
            (map (\<lambda>((a, r), b). spec_translational_score_dual gamma a r b) (zip (zip h r) t))
            (map (\<lambda>((r, b), ns). map (\<lambda>n. spec_translational_score_dual gamma n r b) ns)
               (zip (zip r t) neg))))
   \<and> RobertaForTransE_forward gamma h t None (Some outputs) neg_e1_idxs (Some neg) None
     = Inr (Loss
         (spec_margin_loss
            (map fst (map (\<lambda>((a, r), b). spec_translational_score_dual gamma a r b)
               (zip (zip h (map (map (\<lambda>x. (bert_ceof * fst x, bert_ceof * snd x))) outputs)) t)))
            (map (map fst)
               (map (\<lambda>((a, r), ns). map (\<lambda>n. spec_translational_score_dual gamma a r n) ns)
                  (zip (zip h (map (map (\<lambda>x. (bert_ceof * fst x, bert_ceof * snd x))) outputs))
                     neg))),
          spec_margin_loss_derivative
            (map (\<lambda>((a, r), b). spec_translational_score_dual gamma a r b)
               (zip (zip h (map (map (\<lambda>x. (bert_ceof * fst x, bert_ceof * snd x))) outputs)) t))
            (map (\<lambda>((a, r), ns). map (\<lambda>n. spec_translational_score_dual gamma a r n) ns)
               (zip (zip h (map (map (\<lambda>x. (bert_ceof * fst x, bert_ceof * snd x))) outputs))
                  neg))))"
proof (intro conjI)
  show "RobertaForTransE_forward gamma h t (Some r) (Some any_outputs) None (Some neg) None
     = Inr (Loss
         (spec_margin_loss
            (map fst (map (\<lambda>((a, r), b). spec_translational_score_dual gamma a r b)
               (zip (zip h r) t)))
            (map (map fst)
               (map (\<lambda>((a, r), ns). map (\<lambda>n. spec_translational_score_dual gamma a r n) ns)
                  (zip (zip h r) neg))),
          spec_margin_loss_derivative
            (map (\<lambda>((a, r), b). spec_translational_score_dual gamma a r b) (zip (zip h r) t))
            (map (\<lambda>((a, r), ns). map (\<lambda>n. spec_translational_score_dual gamma a r n) ns)
               (zip (zip h r) neg))))"
    using assms(1-4,6-9) by (rule transe_tail_loss)
  show "RobertaForTransE_forward gamma h t (Some r) (Some any_outputs) (Some neg) neg_e2_idxs None
     = Inr (Loss
         (spec_margin_loss
            (map fst (map (\<lambda>((a, r), b). spec_translational_score_dual gamma a r b)
               (zip (zip h r) t)))
            (map (map fst)
               (map (\<lambda>((r, b), ns). map (\<lambda>n. spec_translational_score_dual gamma n r b) ns)
                  (zip (zip r t) neg))),
          spec_margin_loss_derivative
            (map (\<lambda>((a, r), b). spec_translational_score_dual gamma a r b) (zip (zip h r) t))
            (map (\<lambda>((r, b), ns). map (\<lambda>n. spec_translational_score_dual gamma n r b) ns)
               (zip (zip r t) neg))))"
    using assms(1-4,6-9) by (rule transe_head_loss)
  let ?r = "map (map (\<lambda>x. (bert_ceof * fst x, bert_ceof * snd x))) outputs"
  have r: "map (map (dual_mul (dual_const bert_ceof))) outputs = ?r"
    by (simp add: dual_mul_const)
  have "length ?r = length h" "\<forall>v\<in>set ?r. length v = d"
    using assms(5,10) by auto
  with assms(1,3,4,6,8,9) show
    "RobertaForTransE_forward gamma h t None (Some outputs) neg_e1_idxs (Some neg) None
     = Inr (Loss
         (spec_margin_loss
            (map fst (map (\<lambda>((a, r), b). spec_translational_score_dual gamma a r b)
               (zip (zip h ?r) t)))
            (map (map fst)
               (map (\<lambda>((a, r), ns). map (\<lambda>n. spec_translational_score_dual gamma a r n) ns)
                  (zip (zip h ?r) neg))),
          spec_margin_loss_derivative
            (map (\<lambda>((a, r), b). spec_translational_score_dual gamma a r b) (zip (zip h ?r) t))
            (map (\<lambda>((a, r), ns). map (\<lambda>n. spec_translational_score_dual gamma a r n) ns)
               (zip (zip h ?r) neg))))"
    unfolding transe_forward_encoded r by (intro transe_tail_loss [where d = d])
qed

theorem transe_margin_loss_witness:
  "RobertaForTransE_forward 5 [[(1, 1), (0, 0)]] [[(2, 0), (3, 0)]] (Some [[(0, 0), (1, 0)]])
       (Some [[(0, 0), (0, 0)]]) None (Some [[[(0, 0), (0, 0)], [(2, 0), (1, 0)]]]) None
     = Inr (Loss (spec_margin_loss [2] [[3, 4]],
                  spec_margin_loss_derivative [(2, 1)] [[(3, - 1), (4, 1)]]))"
  using transe_margin_loss
    [of "[[(1, 1), (0, 0)]]" "[[(0, 0), (1, 0)]]" "[[(2, 0), (3, 0)]]"
        "[[[(0, 0), (0, 0)], [(2, 0), (1, 0)]]]" "[[(0, 0), (0, 0)]]" 2 5
        "[[(0, 0), (0, 0)]]" None None]
  by (simp add: spec_translational_score_dual_def spec_translational_score_def)

subsection \<open>The derivative with the weights held constant\<close>

text \<open>
  What \<open>spec_margin_loss_derivative\<close> is: the margin loss is the loss with the weights
  \<open>spec_weights\<close>, and \<open>spec_margin_loss_derivative\<close> is the derivative of the loss along the
  direction of the scores' derivatives when these weights are held at their values.
\<close>

lemma DERIV_sum_list:
  "(\<And>x. x \<in> set xs \<Longrightarrow> ((\<lambda>u. f x u) has_real_derivative f' x) (at a))
   \<Longrightarrow> ((\<lambda>u. \<Sum>x\<leftarrow>xs. f x u) has_real_derivative (\<Sum>x\<leftarrow>xs. f' x)) (at a)"
  by (induction xs) (auto intro!: DERIV_add)

lemma DERIV_log_sigmoid:
  "((\<lambda>u. ln (sigmoid (a + u * b))) has_real_derivative sigmoid (- a) * b) (at 0)"
proof -
  have pos: "0 < 1 + exp (- a)"
    by (simp add: add_pos_pos)
  have "((\<lambda>u. - ln (1 + exp (- (a + u * b)))) has_real_derivative
          - ((exp (- a) * (- b)) / (1 + exp (- a)))) (at 0)"
    using pos by (auto intro!: derivative_eq_intros simp: add_pos_pos)
  moreover have "(\<lambda>u. ln (sigmoid (a + u * b))) = (\<lambda>u. - ln (1 + exp (- (a + u * b))))"
    by (auto simp: sigmoid_def ln_div add_pos_pos)
  moreover have "- ((exp (- a) * (- b)) / (1 + exp (- a))) = sigmoid (- a) * b"
    using pos by (simp add: sigmoid_def field_simps exp_minus)
  ultimately show ?thesis by simp
qed

lemma DERIV_log_sigmoid_neg:
  "((\<lambda>u. ln (sigmoid (- (a + u * b)))) has_real_derivative - (sigmoid a * b)) (at 0)"
  using DERIV_log_sigmoid [of "- a" "- b"] by (simp add: algebra_simps)

lemma zip_map_same: "zip (map f xs) (map g xs) = map (\<lambda>x. (f x, g x)) xs"
  by (induction xs) simp_all

lemma spec_margin_loss_weights:
  "spec_margin_loss pos neg = spec_margin_loss_frozen (spec_weights neg) pos neg"
proof -
  have "zip (spec_weights neg) neg
        = map (\<lambda>row. (map (\<lambda>n. exp n / (\<Sum>m\<leftarrow>row. exp m)) row, row)) neg"
    by (induction neg) (simp_all add: spec_weights_def)
  then show ?thesis
    by (simp add: spec_margin_loss_def spec_margin_loss_frozen_def comp_def
        zip_map_same [where g = "\<lambda>x. x", simplified])
qed

lemma spec_margin_loss_derivative_frozen:
  "((\<lambda>u. spec_margin_loss_frozen (spec_weights (map (map fst) neg))
           (map (\<lambda>p. fst p + u * snd p) pos)
           (map (map (\<lambda>n. fst n + u * snd n)) neg))
     has_real_derivative spec_margin_loss_derivative pos neg) (at 0)"
proof -
  define W where "W row = (\<Sum>m\<leftarrow>row. exp (fst m))" for row :: "dual list"
  have frozen: "spec_margin_loss_frozen (spec_weights (map (map fst) neg))
           (map (\<lambda>p. fst p + u * snd p) pos)
           (map (map (\<lambda>n. fst n + u * snd n)) neg)
      = ((\<Sum>p\<leftarrow>pos. - ln (sigmoid (fst p + u * snd p))) / real (length pos)
         + (\<Sum>row\<leftarrow>neg. \<Sum>n\<leftarrow>row. - ((exp (fst n) / W row) * ln (sigmoid (- (fst n + u * snd n)))))
             / real (length neg)) / 2" for u
  proof -
    have "zip (spec_weights (map (map fst) neg)) (map (map (\<lambda>n. fst n + u * snd n)) neg)
          = map (\<lambda>row. (map (\<lambda>n. exp (fst n) / W row) row,
                         map (\<lambda>n. fst n + u * snd n) row)) neg"
      by (induction neg) (simp_all add: spec_weights_def W_def comp_def)
    then show ?thesis
      by (simp add: spec_margin_loss_frozen_def comp_def zip_map_same sum_list_uminus)
  qed
  have "((\<lambda>u. ((\<Sum>p\<leftarrow>pos. - ln (sigmoid (fst p + u * snd p))) / real (length pos)
         + (\<Sum>row\<leftarrow>neg. \<Sum>n\<leftarrow>row. - ((exp (fst n) / W row) * ln (sigmoid (- (fst n + u * snd n)))))
             / real (length neg)) / 2)
     has_real_derivative
       ((\<Sum>p\<leftarrow>pos. - (sigmoid (- fst p) * snd p)) / real (length pos)
        + (\<Sum>row\<leftarrow>neg. \<Sum>n\<leftarrow>row. - ((exp (fst n) / W row) * - (sigmoid (fst n) * snd n)))
            / real (length neg)) / 2) (at 0)"
    by (intro DERIV_cdivide DERIV_add DERIV_sum_list DERIV_minus DERIV_cmult
        DERIV_log_sigmoid DERIV_log_sigmoid_neg)
  then show ?thesis
    unfolding frozen by (simp add: spec_margin_loss_derivative_def W_def)
qed

text \<open>
  The \<^verbatim>\<open>detach()\<close> is visible in the derivative. For one row of negative scores 0 and 1
  with derivatives 1 and 0, the derivative of \<open>\<Sum>\<^sub>j w\<^sub>j log \<sigma>(- neg\<^sub>j)\<close> computed with the
  softmax as it is exceeds the one computed with the detached softmax by
  \<open>e / (1 + e)\<^sup>2 * (log \<sigma>(0) - log \<sigma>(- 1))\<close>, which is positive.
\<close>

lemma detach_changes_derivative:
  "snd (dual_sum (map2 dual_mul (dual_softmax_row [(0, 1), (1, 0)])
          (map (\<lambda>s. dual_logsigmoid (dual_neg s)) [(0, 1), (1, 0)])))
   - snd (dual_sum (map2 dual_mul (map dual_detach (dual_softmax_row [(0, 1), (1, 0)]))
          (map (\<lambda>s. dual_logsigmoid (dual_neg s)) [(0, 1), (1, 0)])))
   = exp 1 / (1 + exp 1)\<^sup>2 * (ln (sigmoid 0) - ln (sigmoid (- 1)))"
  "ln (sigmoid 0) - ln (sigmoid (- 1)) > 0"
proof -
  have pos: "0 < 1 + exp (1::real)" by (simp add: add_pos_pos)
  then have nz: "1 + exp (1::real) \<noteq> 0" by simp
  show "snd (dual_sum (map2 dual_mul (dual_softmax_row [(0, 1), (1, 0)])
          (map (\<lambda>s. dual_logsigmoid (dual_neg s)) [(0, 1), (1, 0)])))
   - snd (dual_sum (map2 dual_mul (map dual_detach (dual_softmax_row [(0, 1), (1, 0)]))
          (map (\<lambda>s. dual_logsigmoid (dual_neg s)) [(0, 1), (1, 0)])))
   = exp 1 / (1 + exp 1)\<^sup>2 * (ln (sigmoid 0) - ln (sigmoid (- 1)))"
    using nz
    by (simp add: dual_sum_def dual_mul_def dual_softmax_row_def dual_exp_def dual_div_def
        dual_detach_def dual_logsigmoid_def dual_neg_def logsigmoid_def Let_def)
      (simp add: power2_eq_square algebra_simps diff_divide_distrib)
  have "1 < exp (1::real)"
    by (rule exp_gt_one) simp
  then have "sigmoid (- 1) < sigmoid 0"
    using pos by (simp add: sigmoid_def field_simps)
  moreover have "0 < sigmoid (- 1)"
    by (simp add: sigmoid_def add_pos_pos)
  ultimately show "ln (sigmoid 0) - ln (sigmoid (- 1)) > 0"
    by simp
qed

end
